theory Spec2Isabelle
  imports Complex_Main "HOL-Library.Word" "HOL-Library.Char_ord" "HOL-Library.List_Lexorder"
begin

section \<open>The storage library as a collaborator\<close>

text \<open>
  \<^verbatim>\<open>estimate_data_volume.cc\<close> is a single translation unit that drives the HDF5 library.
  The library is not part of the program: it is a parameter of the model, a record of
  operations over a library state of an arbitrary type \<open>'l\<close>. Every operation takes the
  arguments the program passes, the library state, and gives back what the program can
  observe (the returned status or identifier, and what was stored through the output
  pointers) together with the next library state. Nothing is assumed about it.

  \<open>hid_t\<close> and \<open>herr_t\<close> are signed; the program only hands them on and compares them
  with zero, so they are integers. \<open>hsize_t\<close>, \<open>size_t\<close> and the fields of
  \<open>H5_alloc_stats_t\<close> are unsigned 64-bit values. The preemption weight \<open>w0\<close> is a
  \<open>double\<close> that is only handed on, never computed with.
\<close>

type_synonym hid_t = int
type_synonym herr_t = int
type_synonym hsize_t = "64 word"
type_synonym size_t = "64 word"

text \<open>The three fields of \<open>H5_alloc_stats_t\<close> that \<open>report\<close> reads.\<close>

record H5_alloc_stats_t =
  total_alloc_bytes :: "64 word"
  curr_alloc_bytes :: "64 word"
  peak_alloc_bytes :: "64 word"

datatype H5O_type_t =
    H5O_TYPE_UNKNOWN
  | H5O_TYPE_GROUP
  | H5O_TYPE_DATASET
  | H5O_TYPE_NAMED_DATATYPE

text \<open>
  An output pointer that the library may leave untouched is an \<open>option\<close>: \<open>None\<close> means
  nothing was stored and the caller's variable keeps its previous content. The status
  returned by \<open>H5get_alloc_stats\<close> and \<open>H5Fget_filesize\<close> is dropped by every caller in
  the program, so their reply is only what was stored. \<open>H5Sget_simple_extent_dims\<close>
  replies with its return value and the dimension sizes it stored, first dimension first.
  \<open>H5Pget_cache\<close> replies with its status and the four values stored through its pointers
  (\<open>mdc_nelmts\<close>, \<open>rdcc_nslots\<close>, \<open>rdcc_nbytes\<close>, \<open>w0\<close>).

  \<open>H5Ovisit\<close> is split in two: the objects the library presents to the callback, each with
  the location identifier, the name and the object type of its \<open>H5O_info_t\<close>, and the status
  it returns in the end, which may depend on the last value the callback returned.
\<close>

record 'l hdf5 =
  H5Pcreate :: "'l \<Rightarrow> hid_t \<times> 'l"
  H5Pset_fapl_core :: "hid_t \<Rightarrow> size_t \<Rightarrow> bool \<Rightarrow> 'l \<Rightarrow> herr_t \<times> 'l"
  H5Pget_cache :: "hid_t \<Rightarrow> 'l \<Rightarrow> (herr_t \<times> int \<times> size_t \<times> size_t \<times> real) \<times> 'l"
  H5Pset_cache :: "hid_t \<Rightarrow> int \<Rightarrow> size_t \<Rightarrow> size_t \<Rightarrow> real \<Rightarrow> 'l \<Rightarrow> herr_t \<times> 'l"
  H5Pset_all_coll_metadata_ops :: "hid_t \<Rightarrow> bool \<Rightarrow> 'l \<Rightarrow> herr_t \<times> 'l"
  H5get_alloc_stats :: "'l \<Rightarrow> H5_alloc_stats_t option \<times> 'l"
  H5Fopen :: "string \<Rightarrow> hid_t \<Rightarrow> 'l \<Rightarrow> hid_t \<times> 'l"
  H5Fget_filesize :: "hid_t \<Rightarrow> 'l \<Rightarrow> hsize_t option \<times> 'l"
  H5Ovisit_objects :: "hid_t \<Rightarrow> 'l \<Rightarrow> (hid_t \<times> string \<times> H5O_type_t) list \<times> 'l"
  H5Ovisit_status :: "hid_t \<Rightarrow> herr_t \<Rightarrow> 'l \<Rightarrow> herr_t \<times> 'l"
  H5Dopen :: "hid_t \<Rightarrow> string \<Rightarrow> 'l \<Rightarrow> hid_t \<times> 'l"
  H5Dget_space :: "hid_t \<Rightarrow> 'l \<Rightarrow> hid_t \<times> 'l"
  H5Sget_simple_extent_dims :: "hid_t \<Rightarrow> 'l \<Rightarrow> (int \<times> hsize_t list) \<times> 'l"
  H5Sclose :: "hid_t \<Rightarrow> 'l \<Rightarrow> herr_t \<times> 'l"
  H5Dclose :: "hid_t \<Rightarrow> 'l \<Rightarrow> herr_t \<times> 'l"
  H5Fclose :: "hid_t \<Rightarrow> 'l \<Rightarrow> herr_t \<times> 'l"

section \<open>The observable state of a run\<close>

text \<open>
  The trace of a run lists, oldest first, every call into the library with its arguments
  and its reply, and every entry into the program's own \<open>set_rawdata_cache\<close> with the
  arguments it was given.
\<close>

datatype event =
    Ev_H5Pcreate hid_t
  | Ev_H5Pset_fapl_core hid_t size_t bool herr_t
  | Ev_set_rawdata_cache hid_t size_t size_t real
  | Ev_H5Pget_cache hid_t herr_t int size_t size_t real
  | Ev_H5Pset_cache hid_t int size_t size_t real herr_t
  | Ev_H5Pset_all_coll_metadata_ops hid_t bool herr_t
  | Ev_H5get_alloc_stats "H5_alloc_stats_t option"
  | Ev_H5Fopen string hid_t hid_t
  | Ev_H5Fget_filesize hid_t "hsize_t option"
  | Ev_H5Ovisit hid_t
  | Ev_H5Dopen hid_t string hid_t
  | Ev_H5Dget_space hid_t hid_t
  | Ev_H5Sget_simple_extent_dims hid_t int "hsize_t list"
  | Ev_H5Sclose hid_t herr_t
  | Ev_H5Dclose hid_t herr_t
  | Ev_H5Fclose hid_t herr_t

text \<open>
  \<open>h5\<close> is the library's state, \<open>calls\<close> the trace, \<open>cout\<close> and \<open>cerr\<close> the characters
  written to the two standard streams, \<open>outfile\<close> the characters inserted into the output
  stream and \<open>emitted\<close> the arguments of every \<open>report\<close> call so far. \<open>out_good\<close> tells
  whether the output stream could be opened: a \<open>std::ofstream\<close> that failed to open drops
  what is inserted. What of \<open>outfile\<close> has reached the disk when the process exits depends
  on the stream's buffer and is not modelled.
\<close>

record 'l world =
  h5 :: 'l
  calls :: "event list"
  cout :: string
  cerr :: string
  out_good :: bool
  outfile :: string
  emitted :: "(H5_alloc_stats_t \<times> hsize_t) list"

definition invoke :: "('r \<Rightarrow> event) \<Rightarrow> ('l \<Rightarrow> 'r \<times> 'l) \<Rightarrow> 'l world \<Rightarrow> 'r \<times> 'l world" where
  "invoke ev f w = (let (r, l') = f (h5 w) in (r, w\<lparr>h5 := l', calls := calls w @ [ev r]\<rparr>))"

definition endl :: string where
  "endl = [CHR 0x0A]"

text \<open>
  A function that may end the process returns \<open>Inl code\<close> when \<open>exit(code)\<close> was called
  and \<open>Inr v\<close> when it returned \<open>v\<close>. The macro \<open>_HANDLE_ERROR\<close> prints to \<open>std::cout\<close>
  and exits with status 1.
\<close>

definition HANDLE_ERROR :: "string \<Rightarrow> 'l world \<Rightarrow> (int + 'a) \<times> 'l world" where
  "HANDLE_ERROR fn w = (Inl 1, w\<lparr>cout := cout w @ ''Error: '' @ fn @ endl\<rparr>)"

section \<open>Writing the table\<close>

text \<open>
  \<open>operator<<\<close> on an unsigned integer with the stream's default flags writes the
  decimal digits of the value, most significant first, and nothing else.
\<close>

definition digit :: "nat \<Rightarrow> char" where
  "digit d = ''0123456789'' ! d"

fun decimal :: "nat \<Rightarrow> string" where
  "decimal n =
     (if n < 10 then [digit n]
      else decimal (n div 10) @ [digit (n mod 10)])"

declare decimal.simps [simp del]

definition insert_text :: "string \<Rightarrow> 'l world \<Rightarrow> 'l world" where
  "insert_text s w = (if out_good w then w\<lparr>outfile := outfile w @ s\<rparr> else w)"

definition report :: "H5_alloc_stats_t \<Rightarrow> hsize_t \<Rightarrow> 'l world \<Rightarrow> 'l world" where
  "report alloc acc_file_size w =
     (let w = insert_text (decimal (unat (total_alloc_bytes alloc)) @ '','') w;
          w = insert_text (decimal (unat (curr_alloc_bytes alloc)) @ '','') w;
          w = insert_text (decimal (unat (peak_alloc_bytes alloc)) @ '','') w;
          w = insert_text (decimal (unat acc_file_size) @ [CHR 0x0A]) w
      in w\<lparr>emitted := emitted w @ [(alloc, acc_file_size)]\<rparr>)"

definition header :: "'l world \<Rightarrow> 'l world" where
  "header w =
     insert_text (''total_alloc_bytes,curr_alloc_bytes,peak_alloc_bytes,acc_file_size'' @ endl) w"

section \<open>Access strategy\<close>

text \<open>
  \<open>set_rawdata_cache\<close>: the three parameters \<open>rdcc_nslots\<close>, \<open>rdcc_nbytes\<close> and \<open>w0\<close> are
  passed by value and their addresses are handed to \<open>H5Pget_cache\<close>, which overwrites
  them; \<open>err_exit\<close> is never changed, so the function returns 0 when it returns.
\<close>

definition set_rawdata_cache ::
  "'l hdf5 \<Rightarrow> hid_t \<Rightarrow> size_t \<Rightarrow> size_t \<Rightarrow> real \<Rightarrow> 'l world \<Rightarrow> (int + int) \<times> 'l world" where
  "set_rawdata_cache lib fapl_id rdcc_nslots rdcc_nbytes w0 w =
     (let w = w\<lparr>calls := calls w @ [Ev_set_rawdata_cache fapl_id rdcc_nslots rdcc_nbytes w0]\<rparr>;
          err_exit = 0;
          ((err, mdc_nelmts, rdcc_nslots, rdcc_nbytes, w0), w) =
             invoke (\<lambda>(e, m, s, b, x). Ev_H5Pget_cache fapl_id e m s b x)
                    (H5Pget_cache lib fapl_id) w
      in if err < 0 then HANDLE_ERROR ''H5Pget_cache'' w
         else
           let (err, w) = invoke (Ev_H5Pset_cache fapl_id mdc_nelmts rdcc_nslots rdcc_nbytes w0)
                                 (H5Pset_cache lib fapl_id mdc_nelmts rdcc_nslots rdcc_nbytes w0) w
           in if err < 0 then HANDLE_ERROR ''H5Pset_cache'' w
              else (Inr err_exit, w))"

text \<open>
  Lines 110 to 140 of \<open>main\<close>. The three switches and the cache size are local
  variables initialised with constants. \<open>H5P_DEFAULT\<close> is the library's constant 0.
  \<open>set_rawdata_cache\<close> is called with 521 slots, the cache size and weight 1.0.
\<close>

definition H5P_DEFAULT :: hid_t where
  "H5P_DEFAULT = 0"

definition configure :: "'l hdf5 \<Rightarrow> 'l world \<Rightarrow> (int + hid_t) \<times> 'l world" where
  "configure lib w =
     (let posix_open = True;
          in_memory_io = True;
          chunk_caching = True;
          raw_chunk_cache_size = (64 * 1024 * 1024 :: size_t)
      in if posix_open = True then
           if in_memory_io = True then
             let (fapl_id, w) = invoke Ev_H5Pcreate (H5Pcreate lib) w;
                 (err, w) = invoke (Ev_H5Pset_fapl_core fapl_id 0 False)
                                   (H5Pset_fapl_core lib fapl_id 0 False) w
             in if err < 0 then HANDLE_ERROR ''H5Pset_fapl_core'' w
                else if chunk_caching then
                  (case set_rawdata_cache lib fapl_id 521 raw_chunk_cache_size 1 w of
                     (Inl code, w) \<Rightarrow> (Inl code, w)
                   | (Inr err, w) \<Rightarrow>
                       if err < 0 then HANDLE_ERROR ''set_rawdata_cache'' w
                       else (Inr fapl_id, w))
                else (Inr fapl_id, w)
           else (Inr H5P_DEFAULT, w)
         else
           let (fapl_id, w) = invoke Ev_H5Pcreate (H5Pcreate lib) w
           in if fapl_id < 0 then HANDLE_ERROR ''H5Pcreate'' w
              else
                let (err, w) = invoke (Ev_H5Pset_all_coll_metadata_ops fapl_id False)
                                      (H5Pset_all_coll_metadata_ops lib fapl_id False) w
                in if err < 0 then HANDLE_ERROR ''H5Pset_all_coll_metadata_ops'' w
                   else (Inr fapl_id, w))"

section \<open>Visiting the objects of a file\<close>

record op_data_t =
  dset_ids :: "hid_t list"

text \<open>
  \<open>dset_dims\<close> is a local array of two \<open>hsize_t\<close> that is not initialised: what it holds
  when it is declared is not fixed by the program and may differ from call to call, so it
  is a parameter \<open>stack\<close> that is looked up with the trace at that point. The library
  stores one size per dimension. With at most two sizes the first element is the first
  stored size when there is one and stays as it was otherwise. A dataset of rank above two
  makes the library store past the end of the array: the behaviour of the program is
  undefined from there on, which is the result \<open>None\<close>.
\<close>

definition store_dims :: "hsize_t \<times> hsize_t \<Rightarrow> hsize_t list \<Rightarrow> (hsize_t \<times> hsize_t) option" where
  "store_dims dset_dims stored =
     (case stored of
        [] \<Rightarrow> Some dset_dims
      | [d0] \<Rightarrow> Some (d0, snd dset_dims)
      | [d0, d1] \<Rightarrow> Some (d0, d1)
      | _ \<Rightarrow> None)"

text \<open>
  \<open>op_func\<close> gives \<open>Some\<close> of the value it returns and the bookkeeping record, or
  \<open>None\<close> when its behaviour has become undefined; the state is then the one in which
  that happened.
\<close>

definition op_func ::
  "'l hdf5 \<Rightarrow> (event list \<Rightarrow> hsize_t \<times> hsize_t) \<Rightarrow> hid_t \<Rightarrow> string \<Rightarrow> H5O_type_t \<Rightarrow> op_data_t
     \<Rightarrow> 'l world \<Rightarrow> (herr_t \<times> op_data_t) option \<times> 'l world" where
  "op_func lib stack obj name info_type op_data w =
     (if info_type = H5O_TYPE_DATASET then
        let (dset_id, w) = invoke (Ev_H5Dopen obj name) (H5Dopen lib obj name) w;
            (space_id, w) = invoke (Ev_H5Dget_space dset_id) (H5Dget_space lib dset_id) w;
            dset_dims = stack (calls w);
            ((ndims, stored), w) =
               invoke (\<lambda>(n, ds). Ev_H5Sget_simple_extent_dims space_id n ds)
                      (H5Sget_simple_extent_dims lib space_id) w
        in case store_dims dset_dims stored of
             None \<Rightarrow> (None, w)
           | Some dset_dims \<Rightarrow>
               let (err, w) = invoke (Ev_H5Sclose space_id) (H5Sclose lib space_id) w
               in if fst dset_dims \<le> 0 then
                    let (err, w) = invoke (Ev_H5Dclose dset_id) (H5Dclose lib dset_id) w
                    in (Some (0, op_data), w)
                  else (Some (0, op_data), w)
      else (Some (0, op_data), w))"

text \<open>
  The library calls \<open>op_func\<close> on the objects in turn and stops at the first call that
  returns a value other than zero, which is how \<open>H5Ovisit\<close> treats its callback. Nothing
  follows a call whose behaviour is undefined.
\<close>

fun visit_objects ::
  "'l hdf5 \<Rightarrow> (event list \<Rightarrow> hsize_t \<times> hsize_t) \<Rightarrow> (hid_t \<times> string \<times> H5O_type_t) list
     \<Rightarrow> op_data_t \<Rightarrow> 'l world \<Rightarrow> (herr_t \<times> op_data_t) option \<times> 'l world" where
  "visit_objects lib stack [] op_data w = (Some (0, op_data), w)"
| "visit_objects lib stack (x # xs) op_data w =
     (case op_func lib stack (fst x) (fst (snd x)) (snd (snd x)) op_data w of
        (None, w') \<Rightarrow> (None, w')
      | (Some (r, op_data'), w') \<Rightarrow>
          if r \<noteq> 0 then (Some (r, op_data'), w')
          else visit_objects lib stack xs op_data' w')"

definition H5Ovisit ::
  "'l hdf5 \<Rightarrow> (event list \<Rightarrow> hsize_t \<times> hsize_t) \<Rightarrow> hid_t \<Rightarrow> op_data_t \<Rightarrow> 'l world
     \<Rightarrow> (herr_t \<times> op_data_t) option \<times> 'l world" where
  "H5Ovisit lib stack file_id op_data w =
     (let (objs, w) = invoke (\<lambda>_. Ev_H5Ovisit file_id) (H5Ovisit_objects lib file_id) w
      in case visit_objects lib stack objs op_data w of
           (None, w) \<Rightarrow> (None, w)
         | (Some (r, op_data), w) \<Rightarrow>
             let (status, l') = H5Ovisit_status lib file_id r (h5 w)
             in (Some (status, op_data), w\<lparr>h5 := l'\<rparr>))"

section \<open>The measurement loop\<close>

text \<open>
  \<open>std::getline\<close> on the list file: a line ends at a line feed, which is dropped; the
  characters after the last line feed are a line when there is at least one. A list file
  that cannot be opened gives no line at all, without any check by the program.
\<close>

fun getlines :: "string \<Rightarrow> string \<Rightarrow> string list" where
  "getlines line [] = (if line = [] then [] else [line])"
| "getlines line (c # cs) =
     (if c = CHR 0x0A then line # getlines [] cs else getlines (line @ [c]) cs)"

definition read_list :: "string option \<Rightarrow> string list" where
  "read_list infile = (case infile of None \<Rightarrow> [] | Some text \<Rightarrow> getlines [] text)"

text \<open>\<open>c_str()\<close> hands the library the characters before the first NUL.\<close>

definition c_str :: "string \<Rightarrow> string" where
  "c_str s = takeWhile (\<lambda>c. c \<noteq> CHR 0x00) s"

text \<open>
  \<open>file_ids\<close> is a \<open>std::map\<close> from path to identifier: its entries are kept in ascending
  order of the keys, and \<open>file_ids[k] = v\<close> replaces the value of a key that is present.
\<close>

fun map_assign :: "string \<Rightarrow> hid_t \<Rightarrow> (string \<times> hid_t) list \<Rightarrow> (string \<times> hid_t) list" where
  "map_assign k v [] = [(k, v)]"
| "map_assign k v (e # m) =
     (if k < fst e then (k, v) # e # m
      else if k = fst e then (k, v) # m
      else e # map_assign k v m)"

text \<open>The local variables of \<open>main\<close> that the loop reads and writes.\<close>

record scan_state =
  curr_alloc :: H5_alloc_stats_t
  curr_file_size :: hsize_t
  acc_file_size :: hsize_t
  op_data :: op_data_t
  file_ids :: "(string \<times> hid_t) list"

text \<open>
  The body of the loop over the paths, lines 148 to 157. \<open>Inr\<close> is the state after the
  body, \<open>Inl\<close> the state in which the behaviour became undefined during the visit.
\<close>

definition scan_body ::
  "'l hdf5 \<Rightarrow> (event list \<Rightarrow> hsize_t \<times> hsize_t) \<Rightarrow> hid_t \<Rightarrow> string \<Rightarrow> scan_state \<times> 'l world
     \<Rightarrow> (scan_state \<times> 'l world) + (scan_state \<times> 'l world)" where
  "scan_body lib stack fapl_id path sw =
     (let (st, w) = sw;
          (file_id, w) = invoke (Ev_H5Fopen (c_str path) fapl_id)
                                (H5Fopen lib (c_str path) fapl_id) w;
          (stored, w) = invoke (Ev_H5Fget_filesize file_id) (H5Fget_filesize lib file_id) w;
          st = (case stored of None \<Rightarrow> st | Some n \<Rightarrow> st\<lparr>curr_file_size := n\<rparr>);
          st = st\<lparr>acc_file_size := acc_file_size st + curr_file_size st\<rparr>
      in case H5Ovisit lib stack file_id (op_data st) w of
           (None, w) \<Rightarrow> Inl (st, w)
         | (Some (err, od), w) \<Rightarrow>
             let st = st\<lparr>op_data := od\<rparr>;
                 (stored, w) = invoke Ev_H5get_alloc_stats (H5get_alloc_stats lib) w;
                 st = (case stored of None \<Rightarrow> st | Some a \<Rightarrow> st\<lparr>curr_alloc := a\<rparr>);
                 w = report (curr_alloc st) (acc_file_size st) w;
                 st = st\<lparr>file_ids := map_assign path file_id (file_ids st)\<rparr>
             in Inr (st, w))"

text \<open>
  The loop over the paths, lines 147 to 158, with its body as a parameter. The counter
  \<open>i\<close> is an \<open>unsigned int\<close> that is compared with the length of the list: with \<open>2 ^ 32\<close>
  paths or more it wraps to zero and the loop does not end. \<open>None\<close> is the run that does
  not return. The loop is left when the body ends in \<open>Inl\<close>.
\<close>

partial_function (option) scan_loop ::
  "(string \<Rightarrow> 's \<Rightarrow> 'u + 's) \<Rightarrow> string list \<Rightarrow> 32 word \<Rightarrow> 's \<Rightarrow> ('u + 's) option" where
  "scan_loop body hdf5_files i sw =
     (if unat i < length hdf5_files
      then (case body (hdf5_files ! unat i) sw of
              Inl u \<Rightarrow> Some (Inl u)
            | Inr sw' \<Rightarrow> scan_loop body hdf5_files (i + 1) sw')
      else Some (Inr sw))"

declare scan_loop.simps [code]

text \<open>The same loop over a list that the counter can count: it always returns.\<close>

fun scan_files :: "(string \<Rightarrow> 's \<Rightarrow> 'u + 's) \<Rightarrow> string list \<Rightarrow> 's \<Rightarrow> 'u + 's" where
  "scan_files body [] sw = Inr sw"
| "scan_files body (p # ps) sw =
     (case body p sw of Inl u \<Rightarrow> Inl u | Inr sw' \<Rightarrow> scan_files body ps sw')"

text \<open>The loop over the map that closes the files, lines 160 to 163.\<close>

fun close_all :: "'l hdf5 \<Rightarrow> (string \<times> hid_t) list \<Rightarrow> 'l world \<Rightarrow> (int + unit) \<times> 'l world" where
  "close_all lib [] w = (Inr (), w)"
| "close_all lib (fid # rest) w =
     (case invoke (Ev_H5Fclose (snd fid)) (H5Fclose lib (snd fid)) w of
        (err, w') \<Rightarrow>
          if err < 0 then HANDLE_ERROR ''H5Fclose'' w'
          else close_all lib rest w')"

section \<open>The program\<close>

text \<open>
  What a run is given: the argument vector (\<open>argc\<close> is its length), the content of each
  file that can be opened for reading, which paths can be opened for writing, which paths
  name the same file, and the content of the two local variables that are read before
  the program has written them when the library stores nothing (\<open>curr_alloc\<close> in \<open>main\<close>
  and \<open>dset_dims\<close> in \<open>op_func\<close>).
\<close>

record env =
  argv :: "string list"
  fs_read :: "string \<Rightarrow> string option"
  fs_write :: "string \<Rightarrow> bool"
  same_file :: "string \<Rightarrow> string \<Rightarrow> bool"
  stack_alloc :: H5_alloc_stats_t
  stack_dims :: "event list \<Rightarrow> hsize_t \<times> hsize_t"

text \<open>
  How a run ends: with an exit status, or in undefined behaviour. The outcome also holds
  the local variables of \<open>main\<close> and the observable state at that point.
\<close>

datatype ending = Exit int | Undefined

record 'l outcome =
  ending :: ending
  locals :: scan_state
  final :: "'l world"

definition usage :: string where
  "usage = ''Usage: estimate_data_volume /path/to/file_list.txt /path/to/output.csv''"

text \<open>
  The list file is opened first; the output file is then opened and truncated, and the
  header is written and flushed by \<open>std::endl\<close>; only then are the lines of the list read.
  When the two arguments name one file and the output could be opened, what is read is
  therefore the header line, which is all that the output stream holds by then.
\<close>

definition main :: "'l hdf5 \<Rightarrow> env \<Rightarrow> 'l \<Rightarrow> 'l outcome option" where
  "main lib env l0 =
     (let w = \<lparr>h5 = l0, calls = [], cout = [], cerr = [], out_good = False, outfile = [],
               emitted = []\<rparr>;
          st = \<lparr>curr_alloc = stack_alloc env, curr_file_size = 0, acc_file_size = 0,
                op_data = \<lparr>dset_ids = []\<rparr>, file_ids = []\<rparr>
      in if length (argv env) \<noteq> 3 then
           Some \<lparr>ending = Exit 1, locals = st, final = w\<lparr>cout := cout w @ usage @ endl\<rparr>\<rparr>
         else
           let infile = fs_read env (argv env ! 1);
               w = w\<lparr>out_good := fs_write env (argv env ! 2)\<rparr>;
               w = header w;
               infile = (if same_file env (argv env ! 1) (argv env ! 2) \<and> out_good w
                         then map_option (\<lambda>old. outfile w) infile else infile);
               hdf5_files = read_list infile
           in case configure lib w of
                (Inl code, w) \<Rightarrow> Some \<lparr>ending = Exit code, locals = st, final = w\<rparr>
              | (Inr fapl_id, w) \<Rightarrow>
                  let (stored, w) = invoke Ev_H5get_alloc_stats (H5get_alloc_stats lib) w;
                      st = (case stored of None \<Rightarrow> st | Some a \<Rightarrow> st\<lparr>curr_alloc := a\<rparr>);
                      w = report (curr_alloc st) (acc_file_size st) w
                  in (case scan_loop (scan_body lib (stack_dims env) fapl_id) hdf5_files 0
                             (st, w) of
                        None \<Rightarrow> None
                      | Some (Inl (st, w)) \<Rightarrow>
                          Some \<lparr>ending = Undefined, locals = st, final = w\<rparr>
                      | Some (Inr (st, w)) \<Rightarrow>
                          (case close_all lib (file_ids st) w of
                             (Inl code, w) \<Rightarrow>
                               Some \<lparr>ending = Exit code, locals = st, final = w\<rparr>
                           | (Inr u, w) \<Rightarrow>
                               Some \<lparr>ending = Exit 0, locals = st, final = w\<rparr>)))"

section \<open>A small library to run the program against\<close>

text \<open>
  A deterministic stand-in for the library, used to run the program on concrete inputs.
  It is given a table of files: the byte size of each and its objects, each with a name, a
  type and, for a dataset, its dimension sizes. Its state lists what stands behind the
  identifiers 1, 2, 3 and so on. Opening what does not exist gives \<open>-1\<close>, and every
  operation on an identifier of the wrong kind reports \<open>-1\<close> and stores nothing. The
  cache parameters of a fresh property list are 521 slots, 1 MiB and weight 0.75.
\<close>

record sim_file =
  sim_size :: hsize_t
  sim_objects :: "(string \<times> H5O_type_t \<times> hsize_t list) list"

datatype sim_handle =
    Sim_plist
  | Sim_file string
  | Sim_dset "hsize_t list"
  | Sim_space "hsize_t list"
  | Sim_closed

definition sim_get :: "sim_handle list \<Rightarrow> hid_t \<Rightarrow> sim_handle" where
  "sim_get s i = (if 1 \<le> i \<and> nat i \<le> length s then s ! (nat i - 1) else Sim_closed)"

definition sim_new :: "sim_handle \<Rightarrow> sim_handle list \<Rightarrow> hid_t \<times> sim_handle list" where
  "sim_new h s = (int (length s) + 1, s @ [h])"

definition sim_release :: "hid_t \<Rightarrow> sim_handle list \<Rightarrow> herr_t \<times> sim_handle list" where
  "sim_release i s = (0, s[nat i - 1 := Sim_closed])"

definition sim_stats :: "sim_handle list \<Rightarrow> H5_alloc_stats_t" where
  "sim_stats s =
     \<lparr>total_alloc_bytes = 4096 * of_nat (length s),
      curr_alloc_bytes = 4096 * of_nat (length (filter (\<lambda>h. h \<noteq> Sim_closed) s)),
      peak_alloc_bytes = 4096 * of_nat (length s)\<rparr>"

definition sim_lib :: "(string \<times> sim_file) list \<Rightarrow> sim_handle list hdf5" where
  "sim_lib table =
     \<lparr>H5Pcreate = sim_new Sim_plist,
      H5Pset_fapl_core = (\<lambda>i inc bs s.
         (case sim_get s i of Sim_plist \<Rightarrow> 0 | _ \<Rightarrow> -1, s)),
      H5Pget_cache = (\<lambda>i s.
         (case sim_get s i of
            Sim_plist \<Rightarrow> (0, 0, 521, 1048576, 3 / 4)
          | _ \<Rightarrow> (-1, 0, 0, 0, 0), s)),
      H5Pset_cache = (\<lambda>i m n b x s.
         (case sim_get s i of Sim_plist \<Rightarrow> 0 | _ \<Rightarrow> -1, s)),
      H5Pset_all_coll_metadata_ops = (\<lambda>i b s.
         (case sim_get s i of Sim_plist \<Rightarrow> 0 | _ \<Rightarrow> -1, s)),
      H5get_alloc_stats = (\<lambda>s. (Some (sim_stats s), s)),
      H5Fopen = (\<lambda>name fapl s.
         case map_of table name of
           None \<Rightarrow> (-1, s)
         | Some f \<Rightarrow> sim_new (Sim_file name) s),
      H5Fget_filesize = (\<lambda>i s.
         (case sim_get s i of
            Sim_file name \<Rightarrow> map_option sim_size (map_of table name)
          | _ \<Rightarrow> None, s)),
      H5Ovisit_objects = (\<lambda>i s.
         (case sim_get s i of
            Sim_file name \<Rightarrow>
              (case map_of table name of
                 None \<Rightarrow> []
               | Some f \<Rightarrow> map (\<lambda>x. (i, fst x, fst (snd x))) (sim_objects f))
          | _ \<Rightarrow> [], s)),
      H5Ovisit_status = (\<lambda>i r s.
         (case sim_get s i of Sim_file name \<Rightarrow> r | _ \<Rightarrow> -1, s)),
      H5Dopen = (\<lambda>i name s.
         case sim_get s i of
           Sim_file file \<Rightarrow>
             (case map_of table file of
                None \<Rightarrow> (-1, s)
              | Some f \<Rightarrow>
                  (case map_of (sim_objects f) name of
                     Some (H5O_TYPE_DATASET, ds) \<Rightarrow> sim_new (Sim_dset ds) s
                   | _ \<Rightarrow> (-1, s)))
         | _ \<Rightarrow> (-1, s)),
      H5Dget_space = (\<lambda>i s.
         case sim_get s i of
           Sim_dset ds \<Rightarrow> sim_new (Sim_space ds) s
         | _ \<Rightarrow> (-1, s)),
      H5Sget_simple_extent_dims = (\<lambda>i s.
         (case sim_get s i of
            Sim_space ds \<Rightarrow> (int (length ds), ds)
          | _ \<Rightarrow> (-1, []), s)),
      H5Sclose = (\<lambda>i s.
         case sim_get s i of Sim_space ds \<Rightarrow> sim_release i s | _ \<Rightarrow> (-1, s)),
      H5Dclose = (\<lambda>i s.
         case sim_get s i of Sim_dset ds \<Rightarrow> sim_release i s | _ \<Rightarrow> (-1, s)),
      H5Fclose = (\<lambda>i s.
         case sim_get s i of Sim_file name \<Rightarrow> sim_release i s | _ \<Rightarrow> (-1, s))\<rparr>"

text \<open>
  A run of the program against the small library: the list file holds \<open>text\<close>, the output
  file can be written, and the two uninitialised variables hold \<open>7\<close> everywhere.
\<close>

definition sim_env :: "string \<Rightarrow> env" where
  "sim_env text =
     \<lparr>argv = [''estimate_data_volume'', ''list.txt'', ''out.csv''],
      fs_read = (\<lambda>p. if p = ''list.txt'' then Some text else None),
      fs_write = (\<lambda>p. True),
      same_file = (\<lambda>p q. p = q),
      stack_alloc = \<lparr>total_alloc_bytes = 7, curr_alloc_bytes = 7, peak_alloc_bytes = 7\<rparr>,
      stack_dims = (\<lambda>trace. (7, 7))\<rparr>"

definition sim_run :: "(string \<times> sim_file) list \<Rightarrow> string \<Rightarrow> sim_handle list outcome option" where
  "sim_run table text = main (sim_lib table) (sim_env text) []"

text \<open>
  Two files: \<open>a.h5\<close> of 1000 bytes with a group, an empty dataset and a dataset of three
  rows, and \<open>b.h5\<close> of 2500 bytes with no object but its root group.
\<close>

definition two_files :: "(string \<times> sim_file) list" where
  "two_files =
     [(''a.h5'', \<lparr>sim_size = 1000,
                  sim_objects = [(''.'', H5O_TYPE_GROUP, []),
                                 (''empty'', H5O_TYPE_DATASET, [0, 4]),
                                 (''rows'', H5O_TYPE_DATASET, [3, 4])]\<rparr>),
      (''b.h5'', \<lparr>sim_size = 2500, sim_objects = [(''.'', H5O_TYPE_GROUP, [])]\<rparr>)]"

section \<open>Reading a run\<close>

text \<open>
  The table as the specification describes it: the fixed header line, and one line per
  row with the four values as decimal numerals separated by commas. \<open>digits_value\<close> reads
  a string of digits back as a number.
\<close>

definition header_line :: string where
  "header_line =
     ''total_alloc_bytes,curr_alloc_bytes,peak_alloc_bytes,acc_file_size'' @ [CHR 0x0A]"

definition csv_row :: "H5_alloc_stats_t \<times> hsize_t \<Rightarrow> string" where
  "csv_row r =
     decimal (unat (total_alloc_bytes (fst r))) @ '','' @
     decimal (unat (curr_alloc_bytes (fst r))) @ '','' @
     decimal (unat (peak_alloc_bytes (fst r))) @ '','' @
     decimal (unat (snd r)) @ [CHR 0x0A]"

definition digits_value :: "string \<Rightarrow> nat" where
  "digits_value s = foldl (\<lambda>a c. 10 * a + (of_char c - 48)) 0 s"

text \<open>
  The paths that \<open>main\<close> reads from the list file named by its first argument: the lines of
  that file, or the header line when the second argument names the same file and it could
  be opened for writing.
\<close>

definition input_paths :: "env \<Rightarrow> string list" where
  "input_paths env =
     read_list (if same_file env (argv env ! 1) (argv env ! 2) \<and> fs_write env (argv env ! 2)
                then map_option (\<lambda>old. header_line) (fs_read env (argv env ! 1))
                else fs_read env (argv env ! 1))"

text \<open>
  Projections of a trace: what each \<open>H5Fget_filesize\<close> call stored, the name given to
  each \<open>H5Fopen\<close> call with the identifier it returned, and the identifiers handed to
  \<open>H5Fclose\<close>.
\<close>

definition filesize_replies :: "event list \<Rightarrow> hsize_t option list" where
  "filesize_replies evs =
     concat (map (\<lambda>e. case e of Ev_H5Fget_filesize i r \<Rightarrow> [r] | _ \<Rightarrow> []) evs)"

definition opened :: "event list \<Rightarrow> (string \<times> hid_t) list" where
  "opened evs = concat (map (\<lambda>e. case e of Ev_H5Fopen n f i \<Rightarrow> [(n, i)] | _ \<Rightarrow> []) evs)"

definition closed_ids :: "event list \<Rightarrow> hid_t list" where
  "closed_ids evs = concat (map (\<lambda>e. case e of Ev_H5Fclose i r \<Rightarrow> [i] | _ \<Rightarrow> []) evs)"

definition is_close :: "event \<Rightarrow> bool" where
  "is_close e = (case e of Ev_H5Fclose i r \<Rightarrow> True | _ \<Rightarrow> False)"

text \<open>The events that a call of \<open>op_func\<close> can add to the trace.\<close>

definition visit_event :: "event \<Rightarrow> bool" where
  "visit_event e =
     (case e of
        Ev_H5Dopen i n r \<Rightarrow> True
      | Ev_H5Dget_space i r \<Rightarrow> True
      | Ev_H5Sget_simple_extent_dims i n ds \<Rightarrow> True
      | Ev_H5Sclose i r \<Rightarrow> True
      | Ev_H5Dclose i r \<Rightarrow> True
      | _ \<Rightarrow> False)"

text \<open>
  The name of the operation when the event is a failure reported by one of the four
  library calls whose status the program checks.
\<close>

definition checked_failure :: "event \<Rightarrow> string option" where
  "checked_failure e =
     (case e of
        Ev_H5Pset_fapl_core i n b r \<Rightarrow> if r < 0 then Some ''H5Pset_fapl_core'' else None
      | Ev_H5Pget_cache i r m s b x \<Rightarrow> if r < 0 then Some ''H5Pget_cache'' else None
      | Ev_H5Pset_cache i m s b x r \<Rightarrow> if r < 0 then Some ''H5Pset_cache'' else None
      | Ev_H5Fclose i r \<Rightarrow> if r < 0 then Some ''H5Fclose'' else None
      | _ \<Rightarrow> None)"

text \<open>
  \<open>advance w evs rows w'\<close>: the state \<open>w'\<close> is \<open>w\<close> after the calls \<open>evs\<close> and the rows
  \<open>rows\<close>, with nothing written to the standard streams.
\<close>

definition advance ::
  "'l world \<Rightarrow> event list \<Rightarrow> (H5_alloc_stats_t \<times> hsize_t) list \<Rightarrow> 'l world \<Rightarrow> bool" where
  "advance w evs rows w' =
     (calls w' = calls w @ evs \<and> emitted w' = emitted w @ rows \<and>
      outfile w' = (if out_good w then outfile w @ concat (map csv_row rows) else outfile w) \<and>
      cout w' = cout w \<and> cerr w' = cerr w \<and> out_good w' = out_good w)"

text \<open>
  \<open>fatal w evs name w'\<close>: the state \<open>w'\<close> is \<open>w\<close> after the calls \<open>evs\<close> and the
  diagnostic of \<open>_HANDLE_ERROR\<close> for the operation \<open>name\<close>.
\<close>

definition fatal :: "'l world \<Rightarrow> event list \<Rightarrow> string \<Rightarrow> 'l world \<Rightarrow> bool" where
  "fatal w evs name w' =
     (calls w' = calls w @ evs \<and> cout w' = cout w @ ''Error: '' @ name @ endl \<and>
      emitted w' = emitted w \<and> outfile w' = outfile w \<and>
      cerr w' = cerr w \<and> out_good w' = out_good w)"

text \<open>
  The state of \<open>main\<close> when it reaches line 110: the output stream is open, or not, and
  the header has been inserted. \<open>locals0\<close> holds the local variables as declared.
\<close>

definition world0 :: "env \<Rightarrow> 'l \<Rightarrow> 'l world" where
  "world0 env l0 =
     header \<lparr>h5 = l0, calls = [], cout = [], cerr = [],
             out_good = fs_write env (argv env ! 2), outfile = [], emitted = []\<rparr>"

definition locals0 :: "env \<Rightarrow> scan_state" where
  "locals0 env =
     \<lparr>curr_alloc = stack_alloc env, curr_file_size = 0, acc_file_size = 0,
      op_data = \<lparr>dset_ids = []\<rparr>, file_ids = []\<rparr>"

text \<open>The events that one pass through the body of the loop can add to the trace.\<close>

definition scan_event :: "hid_t \<Rightarrow> event \<Rightarrow> bool" where
  "scan_event fapl e =
     (case e of
        Ev_H5Fopen n f i \<Rightarrow> f = fapl
      | Ev_H5Fget_filesize i r \<Rightarrow> True
      | Ev_H5Ovisit i \<Rightarrow> True
      | Ev_H5get_alloc_stats a \<Rightarrow> True
      | _ \<Rightarrow> visit_event e)"

text \<open>The sums of the first one, two, three and so on elements of a list, from \<open>a\<close> on.\<close>

fun running_sums :: "'a::plus \<Rightarrow> 'a list \<Rightarrow> 'a list" where
  "running_sums a [] = []"
| "running_sums a (x # xs) = (a + x) # running_sums (a + x) xs"

text \<open>
  What the in-memory strategy allows in a trace for the access property list \<open>fapl\<close>:
  no call of \<open>H5Pset_all_coll_metadata_ops\<close>, and every file opened with \<open>fapl\<close>.
\<close>

definition core_strategy_event :: "hid_t \<Rightarrow> event \<Rightarrow> bool" where
  "core_strategy_event fapl e =
     (case e of
        Ev_H5Pset_all_coll_metadata_ops i b r \<Rightarrow> False
      | Ev_H5Fopen n f i \<Rightarrow> f = fapl
      | _ \<Rightarrow> True)"

text \<open>The outcome of a run against the small library, for the runs that return.\<close>

definition sim_outcome :: "(string \<times> sim_file) list \<Rightarrow> string \<Rightarrow> sim_handle list outcome" where
  "sim_outcome table text = the (sim_run table text)"


text \<open>One file with a dataset of rank eight whose first dimension is 0.\<close>

definition tensor_files :: "(string \<times> sim_file) list" where
  "tensor_files =
     [(''t.h5'', \<lparr>sim_size = 10,
                  sim_objects = [(''.'', H5O_TYPE_GROUP, []),
                                 (''tensor'', H5O_TYPE_DATASET, [0, 4, 5, 6, 7, 8, 9, 10])]\<rparr>)]"

text \<open>The small library with an \<open>H5Pset_fapl_core\<close> that reports failure.\<close>

definition sim_lib_no_core :: "sim_handle list hdf5" where
  "sim_lib_no_core = (sim_lib [])\<lparr>H5Pset_fapl_core := (\<lambda>i inc bs s. (-1, s))\<rparr>"

text \<open>A run in which neither the list file nor the output file can be opened.\<close>

definition sim_env_no_files :: env where
  "sim_env_no_files = (sim_env [])\<lparr>fs_read := (\<lambda>p. None), fs_write := (\<lambda>p. False)\<rparr>"

text \<open>
  The content of the output stream agrees with the rows emitted so far: the header line
  followed by one line per row when the stream is open, nothing otherwise.
\<close>

definition table_ok :: "'l world \<Rightarrow> bool" where
  "table_ok w =
     (outfile w = (if out_good w then header_line @ concat (map csv_row (emitted w)) else []))"

text \<open>
  Nothing has been written to the standard streams and no call whose status the program
  checks has reported a failure.
\<close>

definition quiet :: "'l world \<Rightarrow> bool" where
  "quiet w = (cout w = [] \<and> cerr w = [] \<and> list_all (\<lambda>e. checked_failure e = None) (calls w))"

text \<open>The outcomes of the two runs that show what is reported and what is not.\<close>

definition no_core_outcome :: "sim_handle list outcome" where
  "no_core_outcome = the (main sim_lib_no_core (sim_env []) [])"

definition no_files_outcome :: "sim_handle list outcome" where
  "no_files_outcome = the (main (sim_lib []) sim_env_no_files [])"

text \<open>A run in which both arguments name the list file.\<close>

definition sim_env_one_file :: "string \<Rightarrow> env" where
  "sim_env_one_file text =
     (sim_env text)\<lparr>argv := [''estimate_data_volume'', ''list.txt'', ''list.txt'']\<rparr>"

section \<open>The loop returns on a list that its counter can count\<close>

lemma scan_loop_files_aux:
  "length files < 2 ^ 32 \<Longrightarrow> unat i \<le> length files \<Longrightarrow> n = length files - unat i \<Longrightarrow>
   scan_loop body files i sw = Some (scan_files body (drop (unat i) files) sw)"
proof (induction n arbitrary: i sw)
  case 0
  then have "\<not> unat i < length files" by simp
  with 0 show ?case by (simp add: scan_loop.simps)
next
  case (Suc n)
  then have lt: "unat i < length files" by simp
  with Suc.prems have "unat i + 1 < 2 ^ 32" by simp
  then have u: "unat (i + 1) = unat i + 1"
    by (simp add: unat_word_ariths)
  have d: "drop (unat i) files = files ! unat i # drop (unat i + 1) files"
    using lt by (simp add: Cons_nth_drop_Suc)
  show ?case
  proof (cases "body (files ! unat i) sw")
    case (Inl u)
    then show ?thesis
      using lt d by (subst scan_loop.simps) simp
  next
    case (Inr sw')
    have "scan_loop body files (i + 1) sw' =
          Some (scan_files body (drop (unat (i + 1)) files) sw')"
      using Suc.prems lt u by (intro Suc.IH) simp_all
    then show ?thesis
      using lt u d Inr by (subst scan_loop.simps) simp
  qed
qed

lemma scan_loop_files:
  "length files < 2 ^ 32 \<Longrightarrow> scan_loop body files 0 sw = Some (scan_files body files sw)"
  using scan_loop_files_aux [of files 0 "length files" body sw] by simp

section \<open>What each part of the program does to the state\<close>

lemma advance_refl: "advance w [] [] w"
  by (simp add: advance_def)

lemma advance_trans:
  "advance w a r w' \<Longrightarrow> advance w' b s w'' \<Longrightarrow> advance w (a @ b) (r @ s) w''"
  by (simp add: advance_def)

lemma invoke_advance: "invoke ev f w = (r, w') \<Longrightarrow> advance w [ev r] [] w'"
  by (auto simp: invoke_def advance_def split: prod.splits)

lemma report_advance: "advance w [] [(a, n)] (report a n w)"
  by (simp add: report_def insert_text_def advance_def csv_row_def Let_def)

lemma op_func_advance:
  assumes "op_func lib sd obj name ty od w = (res, w')"
  shows "(res = None \<or> res = Some (0, od)) \<and>
         (\<exists>evs. advance w evs [] w' \<and> list_all visit_event evs)"
  using assms
  by (auto simp: op_func_def invoke_def advance_def visit_event_def Let_def
           split: prod.splits if_splits option.splits)

lemma visit_objects_advance:
  "visit_objects lib sd objs od w = (res, w') \<Longrightarrow>
     (res = None \<or> res = Some (0, od)) \<and>
     (\<exists>evs. advance w evs [] w' \<and> list_all visit_event evs)"
proof (induction objs arbitrary: od w)
  case Nil
  then show ?case by (auto intro: exI [of _ "[]"] simp: advance_refl)
next
  case (Cons x xs)
  obtain r1 w1 where s1: "op_func lib sd (fst x) (fst (snd x)) (snd (snd x)) od w = (r1, w1)"
    by (metis prod.exhaust)
  from op_func_advance [OF s1] obtain e1 where
    a: "r1 = None \<or> r1 = Some (0, od)" "advance w e1 [] w1" "list_all visit_event e1" by blast
  show ?case
  proof (cases r1)
    case None
    with Cons.prems s1 have "res = None" "w' = w1" by simp_all
    with a show ?thesis by blast
  next
    case (Some v)
    with a(1) have v: "r1 = Some (0, od)" by simp
    with Cons.prems s1 have "visit_objects lib sd xs od w1 = (res, w')" by simp
    from Cons.IH [OF this] obtain e2 where
      b: "res = None \<or> res = Some (0, od)" "advance w1 e2 [] w'" "list_all visit_event e2"
      by blast
    from advance_trans [OF a(2) b(2)] a b show ?thesis
      by (auto intro!: exI [of _ "e1 @ e2"])
  qed
qed

lemma H5Ovisit_advance:
  assumes "H5Ovisit lib sd fid od w = (res, w')"
  shows "(res = None \<or> (\<exists>status. res = Some (status, od))) \<and>
         (\<exists>evs. advance w (Ev_H5Ovisit fid # evs) [] w' \<and> list_all visit_event evs)"
proof -
  obtain objs w1 where i: "invoke (\<lambda>_. Ev_H5Ovisit fid) (H5Ovisit_objects lib fid) w = (objs, w1)"
    by (metis prod.exhaust)
  obtain r w2 where v: "visit_objects lib sd objs od w1 = (r, w2)"
    by (metis prod.exhaust)
  from visit_objects_advance [OF v] obtain evs where
    e: "r = None \<or> r = Some (0, od)" "advance w1 evs [] w2" "list_all visit_event evs" by blast
  from assms i v e(1) have w': "res = None \<or> (\<exists>status. res = Some (status, od))"
      "advance w2 [] [] w'"
    by (auto simp: H5Ovisit_def Let_def advance_def split: prod.splits)
  from advance_trans [OF advance_trans [OF invoke_advance [OF i] e(2)] w'(2)]
  have "advance w (Ev_H5Ovisit fid # evs) [] w'"
    by simp
  with w'(1) e(3) show ?thesis by blast
qed

lemma configure_cases:
  assumes "configure lib w = (res, w')"
  obtains
    (ok) fapl e e1 m s b x e2 where "res = Inr fapl" "0 \<le> e" "0 \<le> e1" "0 \<le> e2"
      "advance w [Ev_H5Pcreate fapl, Ev_H5Pset_fapl_core fapl 0 False e,
                  Ev_set_rawdata_cache fapl 521 67108864 1,
                  Ev_H5Pget_cache fapl e1 m s b x, Ev_H5Pset_cache fapl m s b x e2] [] w'"
  | (core) fapl e where "res = Inl 1" "e < 0"
      "fatal w [Ev_H5Pcreate fapl, Ev_H5Pset_fapl_core fapl 0 False e] ''H5Pset_fapl_core'' w'"
  | (get) fapl e e1 m s b x where "res = Inl 1" "0 \<le> e" "e1 < 0"
      "fatal w [Ev_H5Pcreate fapl, Ev_H5Pset_fapl_core fapl 0 False e,
                Ev_set_rawdata_cache fapl 521 67108864 1,
                Ev_H5Pget_cache fapl e1 m s b x] ''H5Pget_cache'' w'"
  | (set) fapl e e1 m s b x e2 where "res = Inl 1" "0 \<le> e" "0 \<le> e1" "e2 < 0"
      "fatal w [Ev_H5Pcreate fapl, Ev_H5Pset_fapl_core fapl 0 False e,
                Ev_set_rawdata_cache fapl 521 67108864 1,
                Ev_H5Pget_cache fapl e1 m s b x, Ev_H5Pset_cache fapl m s b x e2] ''H5Pset_cache'' w'"
  using assms
  by (auto simp: configure_def set_rawdata_cache_def invoke_def HANDLE_ERROR_def advance_def fatal_def
        Let_def split: prod.splits if_splits)

lemma scan_body_step:
  assumes "scan_body lib sd fapl p (st, w) = Inr (st', w')"
  shows "\<exists>fid r vis a.
           advance w ([Ev_H5Fopen (c_str p) fapl fid, Ev_H5Fget_filesize fid r, Ev_H5Ovisit fid]
                        @ vis @ [Ev_H5get_alloc_stats a])
                   [(curr_alloc st', acc_file_size st')] w' \<and>
           list_all visit_event vis \<and>
           curr_file_size st' = (case r of None \<Rightarrow> curr_file_size st | Some n \<Rightarrow> n) \<and>
           acc_file_size st' = acc_file_size st + curr_file_size st' \<and>
           curr_alloc st' = (case a of None \<Rightarrow> curr_alloc st | Some x \<Rightarrow> x) \<and>
           op_data st' = op_data st \<and>
           file_ids st' = map_assign p fid (file_ids st)"
proof -
  obtain fid w1 where o: "invoke (Ev_H5Fopen (c_str p) fapl) (H5Fopen lib (c_str p) fapl) w = (fid, w1)"
    by (metis prod.exhaust)
  obtain r w2 where g: "invoke (Ev_H5Fget_filesize fid) (H5Fget_filesize lib fid) w1 = (r, w2)"
    by (metis prod.exhaust)
  define st1 where "st1 = (case r of None \<Rightarrow> st | Some n \<Rightarrow> st\<lparr>curr_file_size := n\<rparr>)"
  define st2 where "st2 = st1\<lparr>acc_file_size := acc_file_size st1 + curr_file_size st1\<rparr>"
  obtain vr w3 where v: "H5Ovisit lib sd fid (op_data st2) w2 = (vr, w3)"
    by (metis prod.exhaust)
  from assms o g v have "vr \<noteq> None"
    unfolding scan_body_def Let_def st1_def st2_def by (auto split: option.splits)
  with H5Ovisit_advance [OF v] obtain status vis where
    vis: "vr = Some (status, op_data st2)" "advance w2 (Ev_H5Ovisit fid # vis) [] w3"
      "list_all visit_event vis"
    by blast
  note v' = v [unfolded vis(1)]
  obtain a w4 where s: "invoke Ev_H5get_alloc_stats (H5get_alloc_stats lib) w3 = (a, w4)"
    by (metis prod.exhaust)
  from assms o g v' s have w': "w' = report (curr_alloc st') (acc_file_size st') w4"
    and f: "curr_file_size st' = (case r of None \<Rightarrow> curr_file_size st | Some n \<Rightarrow> n)"
      "acc_file_size st' = acc_file_size st + curr_file_size st'"
      "curr_alloc st' = (case a of None \<Rightarrow> curr_alloc st | Some x \<Rightarrow> x)"
      "op_data st' = op_data st"
      "file_ids st' = map_assign p fid (file_ids st)"
    unfolding scan_body_def Let_def st1_def st2_def
    by (auto split: option.splits)
  have "advance w ([Ev_H5Fopen (c_str p) fapl fid] @ [Ev_H5Fget_filesize fid r] @
          (Ev_H5Ovisit fid # vis) @ [Ev_H5get_alloc_stats a] @ [])
          ([] @ [] @ [] @ [] @ [(curr_alloc st', acc_file_size st')]) w'"
    unfolding w'
    by (rule advance_trans [OF invoke_advance [OF o]
          advance_trans [OF invoke_advance [OF g]
            advance_trans [OF vis(2) advance_trans [OF invoke_advance [OF s] report_advance]]]])
  then have adv: "advance w ([Ev_H5Fopen (c_str p) fapl fid, Ev_H5Fget_filesize fid r, Ev_H5Ovisit fid]
                        @ vis @ [Ev_H5get_alloc_stats a]) [(curr_alloc st', acc_file_size st')] w'"
    by simp
  from adv vis(3) f show ?thesis by blast
qed

lemma scan_body_undefined:
  assumes "scan_body lib sd fapl p (st, w) = Inl (st', w')"
  shows "\<exists>fid r vis.
           advance w ([Ev_H5Fopen (c_str p) fapl fid, Ev_H5Fget_filesize fid r, Ev_H5Ovisit fid]
                        @ vis) [] w' \<and>
           list_all visit_event vis \<and>
           op_data st' = op_data st \<and> file_ids st' = file_ids st"
proof -
  obtain fid w1 where o: "invoke (Ev_H5Fopen (c_str p) fapl) (H5Fopen lib (c_str p) fapl) w = (fid, w1)"
    by (metis prod.exhaust)
  obtain r w2 where g: "invoke (Ev_H5Fget_filesize fid) (H5Fget_filesize lib fid) w1 = (r, w2)"
    by (metis prod.exhaust)
  define st1 where "st1 = (case r of None \<Rightarrow> st | Some n \<Rightarrow> st\<lparr>curr_file_size := n\<rparr>)"
  define st2 where "st2 = st1\<lparr>acc_file_size := acc_file_size st1 + curr_file_size st1\<rparr>"
  obtain vr w3 where v: "H5Ovisit lib sd fid (op_data st2) w2 = (vr, w3)"
    by (metis prod.exhaust)
  from assms o g v have res: "vr = None" "st' = st2" "w' = w3"
    unfolding scan_body_def Let_def st1_def st2_def
    by (auto split: option.splits prod.splits)
  from H5Ovisit_advance [OF v] obtain vis where
    vis: "advance w2 (Ev_H5Ovisit fid # vis) [] w3" "list_all visit_event vis"
    by blast
  have "advance w ([Ev_H5Fopen (c_str p) fapl fid] @ [Ev_H5Fget_filesize fid r] @
          (Ev_H5Ovisit fid # vis)) ([] @ [] @ []) w'"
    unfolding res
    by (rule advance_trans [OF invoke_advance [OF o]
          advance_trans [OF invoke_advance [OF g] vis(1)]])
  then have adv: "advance w ([Ev_H5Fopen (c_str p) fapl fid, Ev_H5Fget_filesize fid r,
                              Ev_H5Ovisit fid] @ vis) [] w'"
    by simp
  have f: "op_data st' = op_data st" "file_ids st' = file_ids st"
    unfolding res st1_def st2_def by (simp_all split: option.splits)
  from adv vis(2) f show ?thesis by blast
qed

lemma closed_ids_simps:
  "closed_ids [] = []"
  "closed_ids (a @ b) = closed_ids a @ closed_ids b"
  "closed_ids (Ev_H5Fclose i r # es) = i # closed_ids es"
  "closed_ids (Ev_H5get_alloc_stats x # es) = closed_ids es"
  by (simp_all add: closed_ids_def)

lemma is_close_simps:
  "is_close (Ev_H5Fclose i r)"
  by (simp add: is_close_def)

lemma checked_failure_close:
  "checked_failure (Ev_H5Fclose i r) = (if r < 0 then Some ''H5Fclose'' else None)"
  by (simp add: checked_failure_def)

lemma close_all_cases:
  assumes "close_all lib ids w = (res, w')"
  shows "(\<exists>evs. res = Inr () \<and> advance w evs [] w' \<and> list_all is_close evs \<and>
            closed_ids evs = map snd ids \<and> list_all (\<lambda>e. checked_failure e = None) evs)
       \<or> (\<exists>pre e. res = Inl 1 \<and> fatal w (pre @ [e]) ''H5Fclose'' w' \<and>
            list_all is_close (pre @ [e]) \<and> length pre < length ids \<and>
            closed_ids (pre @ [e]) = take (Suc (length pre)) (map snd ids) \<and>
            list_all (\<lambda>e. checked_failure e = None) pre \<and>
            checked_failure e = Some ''H5Fclose'')"
  using assms
proof (induction ids arbitrary: w)
  case Nil
  then show ?case
    by (auto simp: advance_refl closed_ids_simps intro!: exI [of _ "[]"])
next
  case (Cons x xs)
  obtain err w1 where i: "invoke (Ev_H5Fclose (snd x)) (H5Fclose lib (snd x)) w = (err, w1)"
    by (metis prod.exhaust)
  note a1 = invoke_advance [OF i]
  show ?case
  proof (cases "err < 0")
    case True
    with Cons.prems i have "res = Inl 1" "w' = snd (HANDLE_ERROR ''H5Fclose'' w1 :: (int + unit) \<times> _)"
      by (auto simp: HANDLE_ERROR_def)
    with a1 have "res = Inl 1" "fatal w ([] @ [Ev_H5Fclose (snd x) err]) ''H5Fclose'' w'"
      by (auto simp: HANDLE_ERROR_def fatal_def advance_def)
    with True show ?thesis
      by (intro disjI2 exI [of _ "[]"] exI [of _ "Ev_H5Fclose (snd x) err"])
         (simp add: is_close_simps closed_ids_simps checked_failure_close)
  next
    case False
    with Cons.prems i have "close_all lib xs w1 = (res, w')" by simp
    from Cons.IH [OF this] show ?thesis
    proof (elim disjE exE conjE)
      fix evs
      assume h: "res = Inr ()" "advance w1 evs [] w'" "list_all is_close evs"
        "closed_ids evs = map snd xs" "list_all (\<lambda>e. checked_failure e = None) evs"
      from advance_trans [OF a1 h(2)] h False show ?thesis
        by (intro disjI1 exI [of _ "Ev_H5Fclose (snd x) err # evs"])
           (simp add: is_close_simps closed_ids_simps checked_failure_close)
    next
      fix pre e
      assume h: "res = Inl 1" "fatal w1 (pre @ [e]) ''H5Fclose'' w'" "list_all is_close (pre @ [e])"
        "length pre < length xs" "closed_ids (pre @ [e]) = take (Suc (length pre)) (map snd xs)"
        "list_all (\<lambda>e. checked_failure e = None) pre" "checked_failure e = Some ''H5Fclose''"
      from a1 h(2) have "fatal w ((Ev_H5Fclose (snd x) err # pre) @ [e]) ''H5Fclose'' w'"
        by (simp add: fatal_def advance_def)
      with h False show ?thesis
        by (intro disjI2 exI [of _ "Ev_H5Fclose (snd x) err # pre"] exI [of _ e])
           (simp add: is_close_simps closed_ids_simps checked_failure_close)
    qed
  qed
qed

lemma proj_simps:
  "filesize_replies [] = []"
  "filesize_replies (a @ b) = filesize_replies a @ filesize_replies b"
  "filesize_replies (Ev_H5Fget_filesize i r # es) = r # filesize_replies es"
  "filesize_replies (Ev_H5Fopen n f i # es) = filesize_replies es"
  "filesize_replies (Ev_H5Ovisit i # es) = filesize_replies es"
  "filesize_replies (Ev_H5get_alloc_stats x # es) = filesize_replies es"
  "opened [] = []"
  "opened (a @ b) = opened a @ opened b"
  "opened (Ev_H5Fopen n f i # es) = (n, i) # opened es"
  "opened (Ev_H5Fget_filesize i r # es) = opened es"
  "opened (Ev_H5Ovisit i # es) = opened es"
  "opened (Ev_H5get_alloc_stats x # es) = opened es"
  by (simp_all add: filesize_replies_def opened_def)

lemma visit_events_proj:
  assumes "list_all visit_event vis"
  shows "filesize_replies vis = []" "opened vis = []" "closed_ids vis = []"
    "list_all (scan_event fapl) vis" "list_all (\<lambda>e. checked_failure e = None) vis"
  using assms
  by (induction vis;
      auto simp: visit_event_def filesize_replies_def opened_def closed_ids_def scan_event_def
                 checked_failure_def split: event.splits)+

lemma running_sums_snoc:
  "running_sums a (xs @ [x]) = running_sums a xs @ [a + sum_list xs + x]"
  by (induction xs arbitrary: a) (simp_all add: add.assoc)

lemma running_sums_length: "length (running_sums a xs) = length xs"
  by (induction xs arbitrary: a) simp_all

lemma scan_event_step:
  assumes "list_all visit_event vis"
  shows "list_all (scan_event fapl)
           ([Ev_H5Fopen n fapl fid, Ev_H5Fget_filesize fid r, Ev_H5Ovisit fid] @ vis @
            [Ev_H5get_alloc_stats a])"
    "list_all (scan_event fapl)
           ([Ev_H5Fopen n fapl fid, Ev_H5Fget_filesize fid r, Ev_H5Ovisit fid] @ vis)"
  using visit_events_proj(4) [OF assms, of fapl] by (simp_all add: scan_event_def)

lemma scan_files_summary:
  assumes "scan_files (scan_body lib sd fapl) ps (st0, w0) = Inr (st, w)"
  shows "\<exists>evs rows.
           advance w0 evs rows w \<and> length rows = length ps \<and>
           list_all (scan_event fapl) evs \<and>
           op_data st = op_data st0 \<and>
           length (filesize_replies evs) = length ps \<and>
           length (opened evs) = length ps \<and>
           map fst (opened evs) = map c_str ps \<and>
           file_ids st = foldl (\<lambda>m x. map_assign (fst x) (snd x) m) (file_ids st0)
                           (zip ps (map snd (opened evs))) \<and>
           (list_all (\<lambda>r. r \<noteq> None) (filesize_replies evs) \<longrightarrow>
              map snd rows = running_sums (acc_file_size st0) (map the (filesize_replies evs)) \<and>
              acc_file_size st = acc_file_size st0 + sum_list (map the (filesize_replies evs)))"
  using assms
proof (induction ps arbitrary: st0 w0)
  case Nil
  then show ?case
    by (auto intro!: exI [of _ "[]"] simp: advance_refl proj_simps)
next
  case (Cons p ps)
  from Cons.prems obtain st1 w1 where
    b: "scan_body lib sd fapl p (st0, w0) = Inr (st1, w1)" and
    f: "scan_files (scan_body lib sd fapl) ps (st1, w1) = Inr (st, w)"
    by (auto split: sum.splits)
  from Cons.IH [OF f] obtain evs rows where ih:
    "advance w1 evs rows w" "length rows = length ps"
    "list_all (scan_event fapl) evs" "op_data st = op_data st1"
    "length (filesize_replies evs) = length ps" "length (opened evs) = length ps"
    "map fst (opened evs) = map c_str ps"
    "file_ids st = foldl (\<lambda>m x. map_assign (fst x) (snd x) m) (file_ids st1)
                      (zip ps (map snd (opened evs)))"
    "list_all (\<lambda>r. r \<noteq> None) (filesize_replies evs) \<longrightarrow>
              map snd rows = running_sums (acc_file_size st1) (map the (filesize_replies evs)) \<and>
              acc_file_size st = acc_file_size st1 + sum_list (map the (filesize_replies evs))"
    by blast
  note ih9 = ih(9)
  from scan_body_step [OF b] obtain fid r vis a where step:
    "advance w0 ([Ev_H5Fopen (c_str p) fapl fid, Ev_H5Fget_filesize fid r, Ev_H5Ovisit fid]
                        @ vis @ [Ev_H5get_alloc_stats a])
                   [(curr_alloc st1, acc_file_size st1)] w1"
    "list_all visit_event vis"
    "curr_file_size st1 = (case r of None \<Rightarrow> curr_file_size st0 | Some n \<Rightarrow> n)"
    "acc_file_size st1 = acc_file_size st0 + curr_file_size st1"
    "op_data st1 = op_data st0"
    "file_ids st1 = map_assign p fid (file_ids st0)"
    by blast
  let ?e = "[Ev_H5Fopen (c_str p) fapl fid, Ev_H5Fget_filesize fid r, Ev_H5Ovisit fid]
                        @ vis @ [Ev_H5get_alloc_stats a]"
  note vp = visit_events_proj [OF step(2)]
  have fr: "filesize_replies (?e @ evs) = r # filesize_replies evs"
    and op: "opened (?e @ evs) = (c_str p, fid) # opened evs"
    by (simp_all add: proj_simps vp)
  have se: "list_all (scan_event fapl) (?e @ evs)"
    using ih(3) scan_event_step(1) [OF step(2), of fapl "c_str p" fid r a] by simp
  have fi: "file_ids st = foldl (\<lambda>m x. map_assign (fst x) (snd x) m) (file_ids st0)
              (zip (p # ps) (map snd (opened (?e @ evs))))"
    using ih(8) step(6) unfolding op by simp
  have nm: "map fst (opened (?e @ evs)) = map c_str (p # ps)"
    unfolding op using ih(7) by simp
  have sz: "list_all (\<lambda>r. r \<noteq> None) (filesize_replies (?e @ evs)) \<longrightarrow>
              map snd ((curr_alloc st1, acc_file_size st1) # rows) =
                running_sums (acc_file_size st0) (map the (filesize_replies (?e @ evs))) \<and>
              acc_file_size st = acc_file_size st0 + sum_list (map the (filesize_replies (?e @ evs)))"
    using ih9 step(3,4) unfolding fr by (auto simp: add.assoc)
  have c1: "advance w0 (?e @ evs) ([(curr_alloc st1, acc_file_size st1)] @ rows) w"
    by (rule advance_trans [OF step(1) ih(1)])
  then have c1: "advance w0 (?e @ evs) ((curr_alloc st1, acc_file_size st1) # rows) w"
    by simp
  have c2: "length ((curr_alloc st1, acc_file_size st1) # rows) = length (p # ps)"
    using ih(2) by simp
  have c4: "op_data st = op_data st0"
    using ih(4) step(5) by simp
  have c5: "length (filesize_replies (?e @ evs)) = length (p # ps)"
    unfolding fr using ih(5) by simp
  have c6: "length (opened (?e @ evs)) = length (p # ps)"
    unfolding op using ih(6) by simp
  show ?case
    using c1 c2 se c4 c5 c6 nm fi sz by blast
qed

lemma scan_files_undefined:
  assumes "scan_files (scan_body lib sd fapl) ps (st0, w0) = Inl (st, w)"
  shows "\<exists>evs rows zs.
           advance w0 evs rows w \<and> length rows < length ps \<and>
           list_all (scan_event fapl) evs \<and> op_data st = op_data st0 \<and>
           file_ids st = foldl (\<lambda>m x. map_assign (fst x) (snd x) m) (file_ids st0) zs"
  using assms
proof (induction ps arbitrary: st0 w0)
  case Nil
  then show ?case by simp
next
  case (Cons p ps)
  show ?case
  proof (cases "scan_body lib sd fapl p (st0, w0)")
    case (Inl u)
    with Cons.prems have b: "scan_body lib sd fapl p (st0, w0) = Inl (st, w)" by simp
    from scan_body_undefined [OF b] obtain fid r vis where step:
      "advance w0 ([Ev_H5Fopen (c_str p) fapl fid, Ev_H5Fget_filesize fid r, Ev_H5Ovisit fid]
                        @ vis) [] w"
      "list_all visit_event vis" "op_data st = op_data st0" "file_ids st = file_ids st0"
      by blast
    have c2: "length ([] :: (H5_alloc_stats_t \<times> hsize_t) list) < length (p # ps)" by simp
    have c5: "file_ids st = foldl (\<lambda>m x. map_assign (fst x) (snd x) m) (file_ids st0) []"
      using step(4) by simp
    from step(1) c2 scan_event_step(2) [OF step(2), of fapl "c_str p" fid r] step(3) c5
    show ?thesis by blast
  next
    case (Inr sw1)
    obtain st1 w1 where sw1: "sw1 = (st1, w1)" by (metis prod.exhaust)
    from Inr sw1 have b: "scan_body lib sd fapl p (st0, w0) = Inr (st1, w1)" by simp
    with Cons.prems have f: "scan_files (scan_body lib sd fapl) ps (st1, w1) = Inl (st, w)"
      by simp
    from Cons.IH [OF f] obtain evs rows zs where ih:
      "advance w1 evs rows w" "length rows < length ps"
      "list_all (scan_event fapl) evs" "op_data st = op_data st1"
      "file_ids st = foldl (\<lambda>m x. map_assign (fst x) (snd x) m) (file_ids st1) zs"
      by blast
    from scan_body_step [OF b] obtain fid r vis a where step:
      "advance w0 ([Ev_H5Fopen (c_str p) fapl fid, Ev_H5Fget_filesize fid r, Ev_H5Ovisit fid]
                        @ vis @ [Ev_H5get_alloc_stats a])
                   [(curr_alloc st1, acc_file_size st1)] w1"
      "list_all visit_event vis" "op_data st1 = op_data st0"
      "file_ids st1 = map_assign p fid (file_ids st0)"
      by blast
    let ?e = "[Ev_H5Fopen (c_str p) fapl fid, Ev_H5Fget_filesize fid r, Ev_H5Ovisit fid]
                        @ vis @ [Ev_H5get_alloc_stats a]"
    have c1: "advance w0 (?e @ evs) ([(curr_alloc st1, acc_file_size st1)] @ rows) w"
      by (rule advance_trans [OF step(1) ih(1)])
    have se: "list_all (scan_event fapl) (?e @ evs)"
      using ih(3) scan_event_step(1) [OF step(2), of fapl "c_str p" fid r a] by simp
    have c2: "length ([(curr_alloc st1, acc_file_size st1)] @ rows) < length (p # ps)"
      using ih(2) by simp
    have c4: "op_data st = op_data st0" using ih(4) step(3) by simp
    have c5: "file_ids st = foldl (\<lambda>m x. map_assign (fst x) (snd x) m) (file_ids st0)
                              ((p, fid) # zs)"
      using ih(5) step(4) by simp
    show ?thesis
      using c1 c2 se c4 c5 by blast
  qed
qed

lemma world0_fields:
  "calls (world0 env l0) = []" "cout (world0 env l0) = []" "cerr (world0 env l0) = []"
  "emitted (world0 env l0) = []" "out_good (world0 env l0) = fs_write env (argv env ! 2)"
  "outfile (world0 env l0) = (if fs_write env (argv env ! 2) then header_line else [])"
  by (simp_all add: world0_def header_def insert_text_def header_line_def endl_def)

lemma main_usage:
  assumes "length (argv env) \<noteq> 3"
  shows "main lib env l0 =
           Some \<lparr>ending = Exit 1, locals = locals0 env,
                 final = \<lparr>h5 = l0, calls = [], cout = usage @ endl, cerr = [], out_good = False,
                          outfile = [], emitted = []\<rparr>\<rparr>"
  using assms by (simp add: main_def locals0_def)

lemma main_alt:
  assumes "length (argv env) = 3"
  shows "main lib env l0 =
     (case configure lib (world0 env l0) of
        (Inl code, w) \<Rightarrow> Some \<lparr>ending = Exit code, locals = locals0 env, final = w\<rparr>
      | (Inr fapl, w) \<Rightarrow>
          (case invoke Ev_H5get_alloc_stats (H5get_alloc_stats lib) w of
             (a, w) \<Rightarrow>
               (case scan_loop (scan_body lib (stack_dims env) fapl) (input_paths env) 0
                       (case a of None \<Rightarrow> locals0 env | Some x \<Rightarrow> (locals0 env)\<lparr>curr_alloc := x\<rparr>,
                        report (curr_alloc (case a of None \<Rightarrow> locals0 env
                                            | Some x \<Rightarrow> (locals0 env)\<lparr>curr_alloc := x\<rparr>)) 0 w) of
                  None \<Rightarrow> None
                | Some (Inl (st, w)) \<Rightarrow> Some \<lparr>ending = Undefined, locals = st, final = w\<rparr>
                | Some (Inr (st, w)) \<Rightarrow>
                    (case close_all lib (file_ids st) w of
                       (Inl code, w) \<Rightarrow> Some \<lparr>ending = Exit code, locals = st, final = w\<rparr>
                     | (Inr u, w) \<Rightarrow> Some \<lparr>ending = Exit 0, locals = st, final = w\<rparr>))))"
proof -
  have acc0: "acc_file_size (case a of None \<Rightarrow> locals0 env | Some x \<Rightarrow> (locals0 env)\<lparr>curr_alloc := x\<rparr>) = 0"
    for a
    by (simp add: locals0_def split: option.splits)
  have w0: "header (\<lparr>h5 = l0, calls = [], cout = [], cerr = [], out_good = False, outfile = [],
                     emitted = []\<rparr>\<lparr>out_good := fs_write env (argv env ! 2)\<rparr>) = world0 env l0"
    by (simp add: world0_def)
  have paths: "read_list (if same_file env (argv env ! 1) (argv env ! 2) \<and> out_good (world0 env l0)
                          then map_option (\<lambda>old. outfile (world0 env l0)) (fs_read env (argv env ! 1))
                          else fs_read env (argv env ! 1)) = input_paths env"
    by (simp add: input_paths_def world0_fields)
  show ?thesis
    using assms unfolding main_def Let_def w0 paths locals0_def [symmetric]
    by (simp add: acc0 split: prod.splits sum.splits)
qed

lemma main_cases [consumes 1, case_names usage config_failed undefined scanned]:
  assumes len: "length (input_paths env) < 2 ^ 32"
  obtains
    (usage) "length (argv env) \<noteq> 3"
      "main lib env l0 =
         Some \<lparr>ending = Exit 1, locals = locals0 env,
               final = \<lparr>h5 = l0, calls = [], cout = usage @ endl, cerr = [], out_good = False,
                        outfile = [], emitted = []\<rparr>\<rparr>"
  | (config_failed) code w where "length (argv env) = 3"
      "configure lib (world0 env l0) = (Inl code, w)"
      "main lib env l0 = Some \<lparr>ending = Exit code, locals = locals0 env, final = w\<rparr>"
  | (undefined) fapl w1 a w2 st1 st w3 where "length (argv env) = 3"
      "configure lib (world0 env l0) = (Inr fapl, w1)"
      "invoke Ev_H5get_alloc_stats (H5get_alloc_stats lib) w1 = (a, w2)"
      "st1 = (case a of None \<Rightarrow> locals0 env | Some x \<Rightarrow> (locals0 env)\<lparr>curr_alloc := x\<rparr>)"
      "scan_files (scan_body lib (stack_dims env) fapl) (input_paths env)
         (st1, report (curr_alloc st1) 0 w2) = Inl (st, w3)"
      "main lib env l0 = Some \<lparr>ending = Undefined, locals = st, final = w3\<rparr>"
  | (scanned) fapl w1 a w2 st1 st w3 res w4 where "length (argv env) = 3"
      "configure lib (world0 env l0) = (Inr fapl, w1)"
      "invoke Ev_H5get_alloc_stats (H5get_alloc_stats lib) w1 = (a, w2)"
      "st1 = (case a of None \<Rightarrow> locals0 env | Some x \<Rightarrow> (locals0 env)\<lparr>curr_alloc := x\<rparr>)"
      "scan_files (scan_body lib (stack_dims env) fapl) (input_paths env)
         (st1, report (curr_alloc st1) 0 w2) = Inr (st, w3)"
      "close_all lib (file_ids st) w3 = (res, w4)"
      "main lib env l0 =
         Some \<lparr>ending = Exit (case res of Inl c \<Rightarrow> c | Inr u \<Rightarrow> 0), locals = st, final = w4\<rparr>"
proof (cases "length (argv env) = 3")
  case False
  show ?thesis by (rule usage [OF False main_usage [OF False]])
next
  case True
  obtain r w1 where c: "configure lib (world0 env l0) = (r, w1)" by (metis prod.exhaust)
  show ?thesis
  proof (cases r)
    case (Inl code)
    with c have c': "configure lib (world0 env l0) = (Inl code, w1)" by simp
    then have "main lib env l0 = Some \<lparr>ending = Exit code, locals = locals0 env, final = w1\<rparr>"
      by (simp add: main_alt [OF True])
    then show ?thesis by (rule config_failed [OF True c'])
  next
    case (Inr fapl)
    from c Inr have c': "configure lib (world0 env l0) = (Inr fapl, w1)" by simp
    obtain a w2 where i: "invoke Ev_H5get_alloc_stats (H5get_alloc_stats lib) w1 = (a, w2)"
      by (metis prod.exhaust)
    let ?st1 = "case a of None \<Rightarrow> locals0 env | Some x \<Rightarrow> (locals0 env)\<lparr>curr_alloc := x\<rparr>"
    show ?thesis
    proof (cases "scan_files (scan_body lib (stack_dims env) fapl) (input_paths env)
         (?st1, report (curr_alloc ?st1) 0 w2)")
      case (Inl u)
      obtain st w3 where u: "u = (st, w3)" by (metis prod.exhaust)
      note f = Inl [unfolded u]
      have "main lib env l0 = Some \<lparr>ending = Undefined, locals = st, final = w3\<rparr>"
        by (simp add: main_alt [OF True] c' i scan_loop_files [OF len] f)
      then show ?thesis by (rule undefined [OF True c' i refl f])
    next
      case (Inr v)
      obtain st w3 where v: "v = (st, w3)" by (metis prod.exhaust)
      note f = Inr [unfolded v]
      obtain res w4 where cl: "close_all lib (file_ids st) w3 = (res, w4)"
        by (metis prod.exhaust)
      have "main lib env l0 =
           Some \<lparr>ending = Exit (case res of Inl c \<Rightarrow> c | Inr u \<Rightarrow> 0), locals = st, final = w4\<rparr>"
        by (simp add: main_alt [OF True] c' i scan_loop_files [OF len] f cl split: sum.splits)
      then show ?thesis by (rule scanned [OF True c' i refl f cl])
    qed
  qed
qed

section \<open>Decimal numerals\<close>

lemma digit_value: "d < 10 \<Longrightarrow> of_char (digit d) = (48 + d :: nat)"
proof -
  assume "d < 10"
  then have "d \<in> {0, 1, 2, 3, 4, 5, 6, 7, 8, 9}" by auto
  then show ?thesis by (auto simp: digit_def)
qed

lemma digit_is_digit: "d < 10 \<Longrightarrow> digit d \<in> set ''0123456789''"
proof -
  assume "d < 10"
  then have "d \<in> {0, 1, 2, 3, 4, 5, 6, 7, 8, 9}" by auto
  then show ?thesis by (auto simp: digit_def)
qed

lemma digits_value_snoc: "digits_value (s @ [c]) = 10 * digits_value s + (of_char c - 48)"
  by (simp add: digits_value_def)

lemma decimal_value: "digits_value (decimal n) = n"
proof (induction n rule: decimal.induct)
  case (1 n)
  show ?case
  proof (cases "n < 10")
    case True
    then show ?thesis
      by (subst decimal.simps) (simp add: digits_value_def digit_value)
  next
    case False
    have m: "n mod 10 < 10" by simp
    from False 1 have "digits_value (decimal (n div 10)) = n div 10" by simp
    with False show ?thesis
      by (subst decimal.simps) (simp add: digits_value_snoc digit_value [OF m])
  qed
qed

lemma decimal_digits: "set (decimal n) \<subseteq> set ''0123456789''"
proof (induction n rule: decimal.induct)
  case (1 n)
  show ?case
  proof (cases "n < 10")
    case True
    from digit_is_digit [OF True] True show ?thesis
      by (subst decimal.simps) simp
  next
    case False
    have m: "n mod 10 < 10" by simp
    from False 1 have "set (decimal (n div 10)) \<subseteq> set ''0123456789''" by simp
    with False digit_is_digit [OF m] show ?thesis
      by (subst decimal.simps) simp
  qed
qed

section \<open>The output stream holds the header and the rows\<close>

lemma advance_table_ok: "advance w evs rows w' \<Longrightarrow> table_ok w \<Longrightarrow> table_ok w'"
  by (auto simp: advance_def table_ok_def)

lemma fatal_table_ok: "fatal w evs name w' \<Longrightarrow> table_ok w \<Longrightarrow> table_ok w'"
  by (auto simp: fatal_def table_ok_def)

lemma world0_table_ok: "table_ok (world0 env l0)"
  by (simp add: table_ok_def world0_fields)

lemma configure_table_ok:
  assumes "configure lib w = (res, w')" "table_ok w"
  shows "table_ok w'"
proof -
  from assms(1) have "(\<exists>evs. advance w evs [] w') \<or> (\<exists>evs name. fatal w evs name w')"
    by (cases rule: configure_cases) blast+
  with assms(2) show ?thesis
    by (blast intro: advance_table_ok fatal_table_ok)
qed

lemma close_all_table_ok:
  assumes "close_all lib ids w = (res, w')" "table_ok w"
  shows "table_ok w'"
proof -
  from close_all_cases [OF assms(1)]
  have "(\<exists>evs. advance w evs [] w') \<or> (\<exists>evs name. fatal w evs name w')"
    by blast
  with assms(2) show ?thesis
    by (blast intro: advance_table_ok fatal_table_ok)
qed

lemma configure_moves:
  assumes "configure lib w = (res, w')"
  shows "(\<exists>evs. advance w evs [] w') \<or> (\<exists>evs name. fatal w evs name w')"
  using assms by (cases rule: configure_cases) blast+

lemma close_all_moves:
  assumes "close_all lib ids w = (res, w')"
  shows "(\<exists>evs. advance w evs [] w') \<or> (\<exists>evs name. fatal w evs name w')"
  using close_all_cases [OF assms] by blast

lemma moves_out_good:
  assumes "(\<exists>evs. advance w evs [] w') \<or> (\<exists>evs name. fatal w evs name w')"
  shows "out_good w' = out_good w"
  using assms by (auto simp: advance_def fatal_def)

lemma main_table_ok:
  assumes len: "length (input_paths env) < 2 ^ 32" and argc: "length (argv env) = 3"
  shows "\<exists>out. main lib env l0 = Some out \<and> table_ok (final out) \<and>
           out_good (final out) = fs_write env (argv env ! 2)"
  using len
proof (cases rule: main_cases [where lib = lib and ?l0.0 = l0])
  case usage
  with argc show ?thesis by simp
next
  case (config_failed code w)
  have "table_ok w"
    by (rule configure_table_ok [OF config_failed(2) world0_table_ok])
  moreover have "out_good w = fs_write env (argv env ! 2)"
    using moves_out_good [OF configure_moves [OF config_failed(2)]] by (simp add: world0_fields)
  ultimately show ?thesis unfolding config_failed(3) by simp
next
  case (undefined fapl w1 a w2 st1 st w3)
  have t1: "table_ok w1"
    by (rule configure_table_ok [OF undefined(2) world0_table_ok])
  have g1: "out_good w1 = fs_write env (argv env ! 2)"
    using moves_out_good [OF configure_moves [OF undefined(2)]] by (simp add: world0_fields)
  note a2 = invoke_advance [OF undefined(3)]
  from scan_files_undefined [OF undefined(5)] obtain evs rows where
    a3: "advance (report (curr_alloc st1) 0 w2) evs rows w3" by blast
  note a23 = advance_trans [OF advance_trans [OF a2 report_advance] a3]
  have t3: "table_ok w3" by (rule advance_table_ok [OF a23 t1])
  have g3: "out_good w3 = fs_write env (argv env ! 2)"
    using a23 g1 by (simp add: advance_def)
  from t3 g3 show ?thesis unfolding undefined(6) by simp
next
  case (scanned fapl w1 a w2 st1 st w3 res w4)
  have t1: "table_ok w1"
    by (rule configure_table_ok [OF scanned(2) world0_table_ok])
  have g1: "out_good w1 = fs_write env (argv env ! 2)"
    using moves_out_good [OF configure_moves [OF scanned(2)]] by (simp add: world0_fields)
  note a2 = invoke_advance [OF scanned(3)]
  from scan_files_summary [OF scanned(5)] obtain evs rows where
    a3: "advance (report (curr_alloc st1) 0 w2) evs rows w3" by blast
  note a23 = advance_trans [OF advance_trans [OF a2 report_advance] a3]
  have t3: "table_ok w3" by (rule advance_table_ok [OF a23 t1])
  have g3: "out_good w3 = fs_write env (argv env ! 2)"
    using a23 g1 by (simp add: advance_def)
  have t4: "table_ok w4" by (rule close_all_table_ok [OF scanned(6) t3])
  have "out_good w4 = out_good w3"
    by (rule moves_out_good [OF close_all_moves [OF scanned(6)]])
  with t4 g3 show ?thesis unfolding scanned(7) by simp
qed

section \<open>Running the program\<close>

lemma sim_lib_sel:
  "H5Pcreate (sim_lib t) = sim_new Sim_plist"
  "H5Pset_fapl_core (sim_lib t) i inc bs s = (case sim_get s i of Sim_plist \<Rightarrow> 0 | _ \<Rightarrow> -1, s)"
  "H5Pget_cache (sim_lib t) i s =
     (case sim_get s i of Sim_plist \<Rightarrow> (0, 0, 521, 1048576, 3 / 4) | _ \<Rightarrow> (-1, 0, 0, 0, 0), s)"
  "H5Pset_cache (sim_lib t) i m n b x s = (case sim_get s i of Sim_plist \<Rightarrow> 0 | _ \<Rightarrow> -1, s)"
  "H5get_alloc_stats (sim_lib t) s = (Some (sim_stats s), s)"
  "H5Fopen (sim_lib t) name fapl s =
     (case map_of t name of None \<Rightarrow> (-1, s) | Some f \<Rightarrow> sim_new (Sim_file name) s)"
  "H5Fget_filesize (sim_lib t) i s =
     (case sim_get s i of Sim_file name \<Rightarrow> map_option sim_size (map_of t name) | _ \<Rightarrow> None, s)"
  "H5Ovisit_objects (sim_lib t) i s =
     (case sim_get s i of
        Sim_file name \<Rightarrow>
          (case map_of t name of
             None \<Rightarrow> []
           | Some f \<Rightarrow> map (\<lambda>x. (i, fst x, fst (snd x))) (sim_objects f))
      | _ \<Rightarrow> [], s)"
  "H5Ovisit_status (sim_lib t) i r s = (case sim_get s i of Sim_file name \<Rightarrow> r | _ \<Rightarrow> -1, s)"
  "H5Dopen (sim_lib t) i name s =
     (case sim_get s i of
        Sim_file file \<Rightarrow>
          (case map_of t file of
             None \<Rightarrow> (-1, s)
           | Some f \<Rightarrow>
               (case map_of (sim_objects f) name of
                  Some (H5O_TYPE_DATASET, ds) \<Rightarrow> sim_new (Sim_dset ds) s
                | _ \<Rightarrow> (-1, s)))
      | _ \<Rightarrow> (-1, s))"
  "H5Dget_space (sim_lib t) i s =
     (case sim_get s i of Sim_dset ds \<Rightarrow> sim_new (Sim_space ds) s | _ \<Rightarrow> (-1, s))"
  "H5Sget_simple_extent_dims (sim_lib t) i s =
     (case sim_get s i of Sim_space ds \<Rightarrow> (int (length ds), ds) | _ \<Rightarrow> (-1, []), s)"
  "H5Sclose (sim_lib t) i s =
     (case sim_get s i of Sim_space ds \<Rightarrow> sim_release i s | _ \<Rightarrow> (-1, s))"
  "H5Dclose (sim_lib t) i s =
     (case sim_get s i of Sim_dset ds \<Rightarrow> sim_release i s | _ \<Rightarrow> (-1, s))"
  "H5Fclose (sim_lib t) i s =
     (case sim_get s i of Sim_file name \<Rightarrow> sim_release i s | _ \<Rightarrow> (-1, s))"
  by (simp_all add: sim_lib_def)

lemma sim_lib_no_core_sel:
  "H5Pcreate sim_lib_no_core = sim_new Sim_plist"
  "H5Pset_fapl_core sim_lib_no_core i inc bs s = (-1, s)"
  by (simp_all add: sim_lib_no_core_def sim_lib_def)

text \<open>
  Each function on a state whose fields are all given, with every field used once: these
  equations run the program on concrete inputs without copying the state.
\<close>

lemma invoke_run:
  "invoke ev f \<lparr>h5 = l, calls = cs, cout = a, cerr = b, out_good = g, outfile = c, emitted = d\<rparr> =
     (case f l of
        (r, l') \<Rightarrow>
          (r, \<lparr>h5 = l', calls = cs @ [ev r], cout = a, cerr = b, out_good = g, outfile = c,
               emitted = d\<rparr>))"
  by (simp add: invoke_def)

lemma report_run:
  "report alloc acc \<lparr>h5 = l, calls = cs, cout = a, cerr = b, out_good = g, outfile = c, emitted = d\<rparr> =
     \<lparr>h5 = l, calls = cs, cout = a, cerr = b, out_good = g,
      outfile = (if g then c @ csv_row (alloc, acc) else c),
      emitted = d @ [(alloc, acc)]\<rparr>"
  by (simp add: report_def insert_text_def csv_row_def)

lemma header_run:
  "header \<lparr>h5 = l, calls = cs, cout = a, cerr = b, out_good = g, outfile = c, emitted = d\<rparr> =
     \<lparr>h5 = l, calls = cs, cout = a, cerr = b, out_good = g,
      outfile = (if g then c @ header_line else c), emitted = d\<rparr>"
  by (simp add: header_def insert_text_def header_line_def endl_def)

lemma HANDLE_ERROR_run:
  "HANDLE_ERROR fn \<lparr>h5 = l, calls = cs, cout = a, cerr = b, out_good = g, outfile = c, emitted = d\<rparr> =
     (Inl 1, \<lparr>h5 = l, calls = cs, cout = a @ ''Error: '' @ fn @ endl, cerr = b, out_good = g,
              outfile = c, emitted = d\<rparr>)"
  by (simp add: HANDLE_ERROR_def)

lemma set_rawdata_cache_run:
  "set_rawdata_cache lib fapl_id n b x
     \<lparr>h5 = l, calls = cs, cout = a, cerr = e, out_good = g, outfile = c, emitted = d\<rparr> =
     (case invoke (\<lambda>(e, m, s, b, x). Ev_H5Pget_cache fapl_id e m s b x) (H5Pget_cache lib fapl_id)
             \<lparr>h5 = l, calls = cs @ [Ev_set_rawdata_cache fapl_id n b x], cout = a, cerr = e,
              out_good = g, outfile = c, emitted = d\<rparr> of
        ((err, mdc_nelmts, rdcc_nslots, rdcc_nbytes, w0), w) \<Rightarrow>
          if err < 0 then HANDLE_ERROR ''H5Pget_cache'' w
          else
            (case invoke (Ev_H5Pset_cache fapl_id mdc_nelmts rdcc_nslots rdcc_nbytes w0)
                    (H5Pset_cache lib fapl_id mdc_nelmts rdcc_nslots rdcc_nbytes w0) w of
               (err, w) \<Rightarrow>
                 if err < 0 then HANDLE_ERROR ''H5Pset_cache'' w else (Inr 0, w)))"
  by (simp add: set_rawdata_cache_def Let_def split: prod.splits)

lemma H5Ovisit_run:
  "H5Ovisit lib sd file_id od
     \<lparr>h5 = l, calls = cs, cout = a, cerr = e, out_good = g, outfile = c, emitted = d\<rparr> =
     (case invoke (\<lambda>_. Ev_H5Ovisit file_id) (H5Ovisit_objects lib file_id)
             \<lparr>h5 = l, calls = cs, cout = a, cerr = e, out_good = g, outfile = c, emitted = d\<rparr> of
        (objs, w) \<Rightarrow>
          (case visit_objects lib sd objs od w of
             (None, w') \<Rightarrow> (None, w')
           | (Some (r, od'), w') \<Rightarrow>
               (case H5Ovisit_status lib file_id r (h5 w') of
                  (status, l') \<Rightarrow> (Some (status, od'), w'\<lparr>h5 := l'\<rparr>))))"
  unfolding H5Ovisit_def Let_def by (simp split: prod.splits option.splits)

lemmas scan_body_run = scan_body_def [where sw = "(st, w)"] for st w

lemmas run_simps =
  sim_lib_sel invoke_run report_run header_run HANDLE_ERROR_run set_rawdata_cache_run H5Ovisit_run
  scan_body_run sim_get_def sim_new_def sim_release_def sim_stats_def Let_def configure_def
  sim_run_def main_def sim_env_def endl_def read_list_def scan_loop_files op_func_def
  store_dims_def c_str_def header_line_def csv_row_def decimal.simps digit_def

section \<open>Concrete runs\<close>

text \<open>The scenario of two files of 1000 and 2500 bytes: three rows, with 0, 1000 and 3500 in the last column.\<close>

lemma run_a_b:
  "sim_run two_files ''a.h5\<newline>b.h5\<newline>'' =
     Some
     \<lparr>ending = Exit 0,
        locals =
          \<lparr>curr_alloc =
             \<lparr>total_alloc_bytes = 28672, curr_alloc_bytes = 16384,
                peak_alloc_bytes = 28672\<rparr>,
             curr_file_size = 2500, acc_file_size = 3500,
             op_data = \<lparr>dset_ids = []\<rparr>,
             file_ids = [(''a.h5'', 2), (''b.h5'', 7)]\<rparr>,
        final =
          \<lparr>h5 = [Sim_plist, Sim_closed, Sim_closed, Sim_closed,
                 Sim_dset [3, 4], Sim_closed, Sim_closed],
             calls =
               [Ev_H5Pcreate 1, Ev_H5Pset_fapl_core 1 0 False 0,
                Ev_set_rawdata_cache 1 521 67108864 1,
                Ev_H5Pget_cache 1 0 0 521 1048576 (3 / 4),
                Ev_H5Pset_cache 1 0 521 1048576 (3 / 4) 0,
                Ev_H5get_alloc_stats
                 (Some
                   \<lparr>total_alloc_bytes = 4096, curr_alloc_bytes = 4096,
                      peak_alloc_bytes = 4096\<rparr>),
                Ev_H5Fopen ''a.h5'' 1 2, Ev_H5Fget_filesize 2 (Some 1000),
                Ev_H5Ovisit 2, Ev_H5Dopen 2 ''empty'' 3,
                Ev_H5Dget_space 3 4,
                Ev_H5Sget_simple_extent_dims 4 2 [0, 4], Ev_H5Sclose 4 0,
                Ev_H5Dclose 3 0, Ev_H5Dopen 2 ''rows'' 5,
                Ev_H5Dget_space 5 6,
                Ev_H5Sget_simple_extent_dims 6 2 [3, 4], Ev_H5Sclose 6 0,
                Ev_H5get_alloc_stats
                 (Some
                   \<lparr>total_alloc_bytes = 24576, curr_alloc_bytes = 12288,
                      peak_alloc_bytes = 24576\<rparr>),
                Ev_H5Fopen ''b.h5'' 1 7, Ev_H5Fget_filesize 7 (Some 2500),
                Ev_H5Ovisit 7,
                Ev_H5get_alloc_stats
                 (Some
                   \<lparr>total_alloc_bytes = 28672, curr_alloc_bytes = 16384,
                      peak_alloc_bytes = 28672\<rparr>),
                Ev_H5Fclose 2 0, Ev_H5Fclose 7 0],
             cout = [], cerr = [], out_good = True,
             outfile =
               ''total_alloc_bytes,curr_alloc_bytes,peak_alloc_bytes,acc_file_size\<newline>4096,4096,4096,0\<newline>24576,12288,24576,1000\<newline>28672,16384,28672,3500\<newline>'',
             emitted =
               [(\<lparr>total_alloc_bytes = 4096, curr_alloc_bytes = 4096,
                    peak_alloc_bytes = 4096\<rparr>,
                 0),
                (\<lparr>total_alloc_bytes = 24576, curr_alloc_bytes = 12288,
                    peak_alloc_bytes = 24576\<rparr>,
                 1000),
                (\<lparr>total_alloc_bytes = 28672, curr_alloc_bytes = 16384,
                    peak_alloc_bytes = 28672\<rparr>,
                 3500)]\<rparr>\<rparr>"
  by (simp add: run_simps two_files_def)

text \<open>A list whose first path does not exist: \<open>H5Fopen\<close> returns \<open>-1\<close>, the loop goes on, a row is written for the path, and the run ends when \<open>H5Fclose\<close> rejects \<open>-1\<close>, before the file \<open>b.h5\<close> is closed.\<close>

lemma run_missing_b:
  "sim_run two_files ''aa.h5\<newline>b.h5\<newline>'' =
     Some
     \<lparr>ending = Exit 1,
        locals =
          \<lparr>curr_alloc =
             \<lparr>total_alloc_bytes = 8192, curr_alloc_bytes = 8192,
                peak_alloc_bytes = 8192\<rparr>,
             curr_file_size = 2500, acc_file_size = 2500,
             op_data = \<lparr>dset_ids = []\<rparr>,
             file_ids = [(''aa.h5'', - 1), (''b.h5'', 2)]\<rparr>,
        final =
          \<lparr>h5 = [Sim_plist, Sim_file ''b.h5''],
             calls =
               [Ev_H5Pcreate 1, Ev_H5Pset_fapl_core 1 0 False 0,
                Ev_set_rawdata_cache 1 521 67108864 1,
                Ev_H5Pget_cache 1 0 0 521 1048576 (3 / 4),
                Ev_H5Pset_cache 1 0 521 1048576 (3 / 4) 0,
                Ev_H5get_alloc_stats
                 (Some
                   \<lparr>total_alloc_bytes = 4096, curr_alloc_bytes = 4096,
                      peak_alloc_bytes = 4096\<rparr>),
                Ev_H5Fopen ''aa.h5'' 1 (- 1), Ev_H5Fget_filesize (- 1) None,
                Ev_H5Ovisit (- 1),
                Ev_H5get_alloc_stats
                 (Some
                   \<lparr>total_alloc_bytes = 4096, curr_alloc_bytes = 4096,
                      peak_alloc_bytes = 4096\<rparr>),
                Ev_H5Fopen ''b.h5'' 1 2, Ev_H5Fget_filesize 2 (Some 2500),
                Ev_H5Ovisit 2,
                Ev_H5get_alloc_stats
                 (Some
                   \<lparr>total_alloc_bytes = 8192, curr_alloc_bytes = 8192,
                      peak_alloc_bytes = 8192\<rparr>),
                Ev_H5Fclose (- 1) (- 1)],
             cout = ''Error: H5Fclose\<newline>'', cerr = [], out_good = True,
             outfile =
               ''total_alloc_bytes,curr_alloc_bytes,peak_alloc_bytes,acc_file_size\<newline>4096,4096,4096,0\<newline>4096,4096,4096,0\<newline>8192,8192,8192,2500\<newline>'',
             emitted =
               [(\<lparr>total_alloc_bytes = 4096, curr_alloc_bytes = 4096,
                    peak_alloc_bytes = 4096\<rparr>,
                 0),
                (\<lparr>total_alloc_bytes = 4096, curr_alloc_bytes = 4096,
                    peak_alloc_bytes = 4096\<rparr>,
                 0),
                (\<lparr>total_alloc_bytes = 8192, curr_alloc_bytes = 8192,
                    peak_alloc_bytes = 8192\<rparr>,
                 2500)]\<rparr>\<rparr>"
  by (simp add: run_simps two_files_def)

text \<open>A list with a single path that does not exist.\<close>

lemma run_missing:
  "sim_run two_files ''missing.h5'' =
     Some
     \<lparr>ending = Exit 1,
        locals =
          \<lparr>curr_alloc =
             \<lparr>total_alloc_bytes = 4096, curr_alloc_bytes = 4096,
                peak_alloc_bytes = 4096\<rparr>,
             curr_file_size = 0, acc_file_size = 0,
             op_data = \<lparr>dset_ids = []\<rparr>, file_ids = [(''missing.h5'', - 1)]\<rparr>,
        final =
          \<lparr>h5 = [Sim_plist],
             calls =
               [Ev_H5Pcreate 1, Ev_H5Pset_fapl_core 1 0 False 0,
                Ev_set_rawdata_cache 1 521 67108864 1,
                Ev_H5Pget_cache 1 0 0 521 1048576 (3 / 4),
                Ev_H5Pset_cache 1 0 521 1048576 (3 / 4) 0,
                Ev_H5get_alloc_stats
                 (Some
                   \<lparr>total_alloc_bytes = 4096, curr_alloc_bytes = 4096,
                      peak_alloc_bytes = 4096\<rparr>),
                Ev_H5Fopen ''missing.h5'' 1 (- 1),
                Ev_H5Fget_filesize (- 1) None, Ev_H5Ovisit (- 1),
                Ev_H5get_alloc_stats
                 (Some
                   \<lparr>total_alloc_bytes = 4096, curr_alloc_bytes = 4096,
                      peak_alloc_bytes = 4096\<rparr>),
                Ev_H5Fclose (- 1) (- 1)],
             cout = ''Error: H5Fclose\<newline>'', cerr = [], out_good = True,
             outfile =
               ''total_alloc_bytes,curr_alloc_bytes,peak_alloc_bytes,acc_file_size\<newline>4096,4096,4096,0\<newline>4096,4096,4096,0\<newline>'',
             emitted =
               [(\<lparr>total_alloc_bytes = 4096, curr_alloc_bytes = 4096,
                    peak_alloc_bytes = 4096\<rparr>,
                 0),
                (\<lparr>total_alloc_bytes = 4096, curr_alloc_bytes = 4096,
                    peak_alloc_bytes = 4096\<rparr>,
                 0)]\<rparr>\<rparr>"
  by (simp add: run_simps two_files_def)

text \<open>A path that does not exist after one that does: \<open>H5Fget_filesize\<close> stores nothing, \<open>curr_file_size\<close> still holds the size of \<open>b.h5\<close>, and it is added again.\<close>

lemma run_b_missing:
  "sim_run two_files ''b.h5\<newline>missing.h5'' =
     Some
     \<lparr>ending = Exit 1,
        locals =
          \<lparr>curr_alloc =
             \<lparr>total_alloc_bytes = 8192, curr_alloc_bytes = 8192,
                peak_alloc_bytes = 8192\<rparr>,
             curr_file_size = 2500, acc_file_size = 5000,
             op_data = \<lparr>dset_ids = []\<rparr>,
             file_ids = [(''b.h5'', 2), (''missing.h5'', - 1)]\<rparr>,
        final =
          \<lparr>h5 = [Sim_plist, Sim_closed],
             calls =
               [Ev_H5Pcreate 1, Ev_H5Pset_fapl_core 1 0 False 0,
                Ev_set_rawdata_cache 1 521 67108864 1,
                Ev_H5Pget_cache 1 0 0 521 1048576 (3 / 4),
                Ev_H5Pset_cache 1 0 521 1048576 (3 / 4) 0,
                Ev_H5get_alloc_stats
                 (Some
                   \<lparr>total_alloc_bytes = 4096, curr_alloc_bytes = 4096,
                      peak_alloc_bytes = 4096\<rparr>),
                Ev_H5Fopen ''b.h5'' 1 2, Ev_H5Fget_filesize 2 (Some 2500),
                Ev_H5Ovisit 2,
                Ev_H5get_alloc_stats
                 (Some
                   \<lparr>total_alloc_bytes = 8192, curr_alloc_bytes = 8192,
                      peak_alloc_bytes = 8192\<rparr>),
                Ev_H5Fopen ''missing.h5'' 1 (- 1),
                Ev_H5Fget_filesize (- 1) None, Ev_H5Ovisit (- 1),
                Ev_H5get_alloc_stats
                 (Some
                   \<lparr>total_alloc_bytes = 8192, curr_alloc_bytes = 8192,
                      peak_alloc_bytes = 8192\<rparr>),
                Ev_H5Fclose 2 0, Ev_H5Fclose (- 1) (- 1)],
             cout = ''Error: H5Fclose\<newline>'', cerr = [], out_good = True,
             outfile =
               ''total_alloc_bytes,curr_alloc_bytes,peak_alloc_bytes,acc_file_size\<newline>4096,4096,4096,0\<newline>8192,8192,8192,2500\<newline>8192,8192,8192,5000\<newline>'',
             emitted =
               [(\<lparr>total_alloc_bytes = 4096, curr_alloc_bytes = 4096,
                    peak_alloc_bytes = 4096\<rparr>,
                 0),
                (\<lparr>total_alloc_bytes = 8192, curr_alloc_bytes = 8192,
                    peak_alloc_bytes = 8192\<rparr>,
                 2500),
                (\<lparr>total_alloc_bytes = 8192, curr_alloc_bytes = 8192,
                    peak_alloc_bytes = 8192\<rparr>,
                 5000)]\<rparr>\<rparr>"
  by (simp add: run_simps two_files_def)


text \<open>An empty list.\<close>

lemma run_empty:
  "sim_run two_files [] =
     Some
     \<lparr>ending = Exit 0,
        locals =
          \<lparr>curr_alloc =
             \<lparr>total_alloc_bytes = 4096, curr_alloc_bytes = 4096,
                peak_alloc_bytes = 4096\<rparr>,
             curr_file_size = 0, acc_file_size = 0,
             op_data = \<lparr>dset_ids = []\<rparr>, file_ids = []\<rparr>,
        final =
          \<lparr>h5 = [Sim_plist],
             calls =
               [Ev_H5Pcreate 1, Ev_H5Pset_fapl_core 1 0 False 0,
                Ev_set_rawdata_cache 1 521 67108864 1,
                Ev_H5Pget_cache 1 0 0 521 1048576 (3 / 4),
                Ev_H5Pset_cache 1 0 521 1048576 (3 / 4) 0,
                Ev_H5get_alloc_stats
                 (Some
                   \<lparr>total_alloc_bytes = 4096, curr_alloc_bytes = 4096,
                      peak_alloc_bytes = 4096\<rparr>)],
             cout = [], cerr = [], out_good = True,
             outfile =
               ''total_alloc_bytes,curr_alloc_bytes,peak_alloc_bytes,acc_file_size\<newline>4096,4096,4096,0\<newline>'',
             emitted =
               [(\<lparr>total_alloc_bytes = 4096, curr_alloc_bytes = 4096,
                    peak_alloc_bytes = 4096\<rparr>,
                 0)]\<rparr>\<rparr>"
  by (simp add: run_simps two_files_def)

text \<open>A library that rejects \<open>H5Pset_fapl_core\<close>.\<close>

lemma run_no_core:
  "main sim_lib_no_core (sim_env []) [] =
     Some
     \<lparr>ending = Exit 1,
        locals =
          \<lparr>curr_alloc =
             \<lparr>total_alloc_bytes = 7, curr_alloc_bytes = 7,
                peak_alloc_bytes = 7\<rparr>,
             curr_file_size = 0, acc_file_size = 0,
             op_data = \<lparr>dset_ids = []\<rparr>, file_ids = []\<rparr>,
        final =
          \<lparr>h5 = [Sim_plist],
             calls = [Ev_H5Pcreate 1, Ev_H5Pset_fapl_core 1 0 False (- 1)],
             cout = ''Error: H5Pset_fapl_core\<newline>'', cerr = [],
             out_good = True,
             outfile =
               ''total_alloc_bytes,curr_alloc_bytes,peak_alloc_bytes,acc_file_size\<newline>'',
             emitted = []\<rparr>\<rparr>"
  by (simp add: run_simps sim_lib_no_core_sel)

text \<open>Neither the list file nor the output file can be opened: the run is that of an empty list, nothing is reported and the exit status is 0.\<close>

lemma run_no_files:
  "main (sim_lib []) sim_env_no_files [] =
     Some
     \<lparr>ending = Exit 0,
        locals =
          \<lparr>curr_alloc =
             \<lparr>total_alloc_bytes = 4096, curr_alloc_bytes = 4096,
                peak_alloc_bytes = 4096\<rparr>,
             curr_file_size = 0, acc_file_size = 0,
             op_data = \<lparr>dset_ids = []\<rparr>, file_ids = []\<rparr>,
        final =
          \<lparr>h5 = [Sim_plist],
             calls =
               [Ev_H5Pcreate 1, Ev_H5Pset_fapl_core 1 0 False 0,
                Ev_set_rawdata_cache 1 521 67108864 1,
                Ev_H5Pget_cache 1 0 0 521 1048576 (3 / 4),
                Ev_H5Pset_cache 1 0 521 1048576 (3 / 4) 0,
                Ev_H5get_alloc_stats
                 (Some
                   \<lparr>total_alloc_bytes = 4096, curr_alloc_bytes = 4096,
                      peak_alloc_bytes = 4096\<rparr>)],
             cout = [], cerr = [], out_good = False, outfile = [],
             emitted =
               [(\<lparr>total_alloc_bytes = 4096, curr_alloc_bytes = 4096,
                    peak_alloc_bytes = 4096\<rparr>,
                 0)]\<rparr>\<rparr>"
  by (simp add: run_simps sim_env_no_files_def)

text \<open>A file with a dataset of rank eight, listed twice: the library stores eight sizes into the array of two, and the behaviour is undefined from there on. The dataset and its dataspace are open, and no row has been written for the file.\<close>

lemma run_tensor:
  "sim_run tensor_files ''t.h5\<newline>t.h5'' =
     Some
     \<lparr>ending = Undefined,
        locals =
          \<lparr>curr_alloc =
             \<lparr>total_alloc_bytes = 4096, curr_alloc_bytes = 4096,
                peak_alloc_bytes = 4096\<rparr>,
             curr_file_size = 10, acc_file_size = 10,
             op_data = \<lparr>dset_ids = []\<rparr>, file_ids = []\<rparr>,
        final =
          \<lparr>h5 = [Sim_plist, Sim_file ''t.h5'',
                 Sim_dset [0, 4, 5, 6, 7, 8, 9, 10],
                 Sim_space [0, 4, 5, 6, 7, 8, 9, 10]],
             calls =
               [Ev_H5Pcreate 1, Ev_H5Pset_fapl_core 1 0 False 0,
                Ev_set_rawdata_cache 1 521 67108864 1,
                Ev_H5Pget_cache 1 0 0 521 1048576 (3 / 4),
                Ev_H5Pset_cache 1 0 521 1048576 (3 / 4) 0,
                Ev_H5get_alloc_stats
                 (Some
                   \<lparr>total_alloc_bytes = 4096, curr_alloc_bytes = 4096,
                      peak_alloc_bytes = 4096\<rparr>),
                Ev_H5Fopen ''t.h5'' 1 2, Ev_H5Fget_filesize 2 (Some 10),
                Ev_H5Ovisit 2, Ev_H5Dopen 2 ''tensor'' 3,
                Ev_H5Dget_space 3 4,
                Ev_H5Sget_simple_extent_dims 4 8 [0, 4, 5, 6, 7, 8, 9, 10]],
             cout = [], cerr = [], out_good = True,
             outfile =
               ''total_alloc_bytes,curr_alloc_bytes,peak_alloc_bytes,acc_file_size\<newline>4096,4096,4096,0\<newline>'',
             emitted =
               [(\<lparr>total_alloc_bytes = 4096, curr_alloc_bytes = 4096,
                    peak_alloc_bytes = 4096\<rparr>,
                 0)]\<rparr>\<rparr>"
  by (simp add: run_simps tensor_files_def)

text \<open>Both arguments name the list file: it is truncated and holds the header line when it is read, so that line is the only path.\<close>

lemma run_one_file:
  "main (sim_lib two_files) (sim_env_one_file ''a.h5\<newline>b.h5\<newline>'') [] =
     Some
     \<lparr>ending = Exit 1,
        locals =
          \<lparr>curr_alloc =
             \<lparr>total_alloc_bytes = 4096, curr_alloc_bytes = 4096,
                peak_alloc_bytes = 4096\<rparr>,
             curr_file_size = 0, acc_file_size = 0,
             op_data = \<lparr>dset_ids = []\<rparr>,
             file_ids =
               [(''total_alloc_bytes,curr_alloc_bytes,peak_alloc_bytes,acc_file_size'',
                 - 1)]\<rparr>,
        final =
          \<lparr>h5 = [Sim_plist],
             calls =
               [Ev_H5Pcreate 1, Ev_H5Pset_fapl_core 1 0 False 0,
                Ev_set_rawdata_cache 1 521 67108864 1,
                Ev_H5Pget_cache 1 0 0 521 1048576 (3 / 4),
                Ev_H5Pset_cache 1 0 521 1048576 (3 / 4) 0,
                Ev_H5get_alloc_stats
                 (Some
                   \<lparr>total_alloc_bytes = 4096, curr_alloc_bytes = 4096,
                      peak_alloc_bytes = 4096\<rparr>),
                Ev_H5Fopen
                 ''total_alloc_bytes,curr_alloc_bytes,peak_alloc_bytes,acc_file_size''
                 1 (- 1),
                Ev_H5Fget_filesize (- 1) None, Ev_H5Ovisit (- 1),
                Ev_H5get_alloc_stats
                 (Some
                   \<lparr>total_alloc_bytes = 4096, curr_alloc_bytes = 4096,
                      peak_alloc_bytes = 4096\<rparr>),
                Ev_H5Fclose (- 1) (- 1)],
             cout = ''Error: H5Fclose\<newline>'', cerr = [], out_good = True,
             outfile =
               ''total_alloc_bytes,curr_alloc_bytes,peak_alloc_bytes,acc_file_size\<newline>4096,4096,4096,0\<newline>4096,4096,4096,0\<newline>'',
             emitted =
               [(\<lparr>total_alloc_bytes = 4096, curr_alloc_bytes = 4096,
                    peak_alloc_bytes = 4096\<rparr>,
                 0),
                (\<lparr>total_alloc_bytes = 4096, curr_alloc_bytes = 4096,
                    peak_alloc_bytes = 4096\<rparr>,
                 0)]\<rparr>\<rparr>"
  by (simp add: run_simps two_files_def sim_env_one_file_def)


section \<open>The output table\<close>

lemma sim_env_fields:
  "length (argv (sim_env text)) = 3"
  "fs_write (sim_env text) (argv (sim_env text) ! 2)"
  "input_paths (sim_env text) = getlines [] text"
  by (simp_all add: sim_env_def input_paths_def read_list_def)

lemma sim_outcome_eq: "sim_run table text = Some out \<Longrightarrow> sim_outcome table text = out"
  by (simp add: sim_outcome_def)

text \<open>
  C8. When the program is given two arguments and the output file can be opened, the
  output stream receives the fixed header line once, before anything else, followed by one
  line per emitted row: the three allocation counters and the accumulated file size as
  plain decimal numerals (digits only, reading back to the value), separated by commas
  and ended by a line feed. This holds of what has been written at the end of every run
  of a list that the loop counter can count, also of a run that ends in undefined
  behaviour.
\<close>

theorem output_is_header_then_rows:
  assumes "length (argv env) = 3" and "fs_write env (argv env ! 2)"
    and "length (input_paths env) < 2 ^ 32"
  shows "\<exists>out. main lib env l0 = Some out \<and>
           outfile (final out) = header_line @ concat (map csv_row (emitted (final out))) \<and>
           (\<forall>n. digits_value (decimal n) = n \<and> set (decimal n) \<subseteq> set ''0123456789'')"
proof -
  from main_table_ok [OF assms(3) assms(1), where lib = lib and ?l0.0 = l0] obtain out where
    o: "main lib env l0 = Some out" "table_ok (final out)"
    "out_good (final out) = fs_write env (argv env ! 2)" by blast
  from o(2,3) assms(2) have
    eq: "outfile (final out) = header_line @ concat (map csv_row (emitted (final out)))"
    by (simp add: table_ok_def)
  have d: "\<forall>n. digits_value (decimal n) = n \<and> set (decimal n) \<subseteq> set ''0123456789''"
    by (intro allI conjI decimal_value decimal_digits)
  show ?thesis
    by (rule exI [of _ out]) (intro conjI o(1) eq d)
qed

text \<open>The run on the files \<open>a.h5\<close> and \<open>b.h5\<close> is such a run.\<close>

theorem output_is_header_then_rows_witness:
  "length (argv (sim_env ''a.h5\<newline>b.h5\<newline>'')) = 3 \<and>
   fs_write (sim_env ''a.h5\<newline>b.h5\<newline>'') (argv (sim_env ''a.h5\<newline>b.h5\<newline>'') ! 2) \<and>
   length (input_paths (sim_env ''a.h5\<newline>b.h5\<newline>'')) < 2 ^ 32 \<and>
   length (emitted (final (sim_outcome two_files ''a.h5\<newline>b.h5\<newline>''))) = 3 \<and>
   outfile (final (sim_outcome two_files ''a.h5\<newline>b.h5\<newline>'')) =
     header_line @ concat (map csv_row (emitted (final (sim_outcome two_files ''a.h5\<newline>b.h5\<newline>''))))"
proof -
  let ?env = "sim_env ''a.h5\<newline>b.h5\<newline>''"
  have h1: "length (argv ?env) = 3" and h2: "fs_write ?env (argv ?env ! 2)"
    by (rule sim_env_fields)+
  have h3: "length (input_paths ?env) < 2 ^ 32"
    by (simp add: sim_env_fields)
  from output_is_header_then_rows [OF h1 h2 h3, where lib = "sim_lib two_files" and ?l0.0 = "[]"]
  obtain out where o: "main (sim_lib two_files) ?env [] = Some out"
    "outfile (final out) = header_line @ concat (map csv_row (emitted (final out)))"
    by blast
  from o(1) have eq: "sim_outcome two_files ''a.h5\<newline>b.h5\<newline>'' = out"
    by (simp add: sim_outcome_def sim_run_def)
  have n: "length (emitted (final (sim_outcome two_files ''a.h5\<newline>b.h5\<newline>''))) = 3"
    unfolding sim_outcome_eq [OF run_a_b] by simp
  from o(2) h1 h2 h3 n show ?thesis unfolding eq by blast
qed

section \<open>The access strategy\<close>

lemma configure_trace:
  assumes "configure lib w = (res, w')"
  shows "\<exists>fapl e rest.
           calls w' = calls w @ Ev_H5Pcreate fapl # Ev_H5Pset_fapl_core fapl 0 False e # rest \<and>
           (0 \<le> e \<longrightarrow> rest \<noteq> [] \<and> hd rest = Ev_set_rawdata_cache fapl 521 67108864 1) \<and>
           list_all (core_strategy_event fapl) rest \<and> (\<forall>f. res = Inr f \<longrightarrow> f = fapl)"
  using assms
proof (cases rule: configure_cases)
  case (ok fapl e e1 m s b x e2)
  then show ?thesis
    by (intro exI [of _ fapl] exI [of _ e]
          exI [of _ "[Ev_set_rawdata_cache fapl 521 67108864 1, Ev_H5Pget_cache fapl e1 m s b x,
                      Ev_H5Pset_cache fapl m s b x e2]"])
       (simp add: advance_def core_strategy_event_def)
next
  case (core fapl e)
  then show ?thesis
    by (intro exI [of _ fapl] exI [of _ e] exI [of _ "[]"]) (simp add: fatal_def)
next
  case (get fapl e e1 m s b x)
  then show ?thesis
    by (intro exI [of _ fapl] exI [of _ e]
          exI [of _ "[Ev_set_rawdata_cache fapl 521 67108864 1, Ev_H5Pget_cache fapl e1 m s b x]"])
       (simp add: fatal_def core_strategy_event_def)
next
  case (set fapl e e1 m s b x e2)
  then show ?thesis
    by (intro exI [of _ fapl] exI [of _ e]
          exI [of _ "[Ev_set_rawdata_cache fapl 521 67108864 1, Ev_H5Pget_cache fapl e1 m s b x,
                      Ev_H5Pset_cache fapl m s b x e2]"])
       (simp add: fatal_def core_strategy_event_def)
qed

lemma close_all_trace:
  assumes "close_all lib ids w = (res, w')"
  shows "\<exists>evs. calls w' = calls w @ evs \<and> list_all is_close evs"
  using close_all_cases [OF assms] by (auto simp: advance_def fatal_def)

lemma scan_event_core: "list_all (scan_event fapl) evs \<Longrightarrow> list_all (core_strategy_event fapl) evs"
  by (induction evs)
     (auto simp: scan_event_def core_strategy_event_def visit_event_def split: event.splits)

lemma is_close_core: "list_all is_close evs \<Longrightarrow> list_all (core_strategy_event fapl) evs"
  by (induction evs) (auto simp: is_close_def core_strategy_event_def split: event.splits)

text \<open>
  C10. Whatever the arguments, the list and the library are, the program follows the
  in-memory strategy with chunk caching and a requested cache of 64 MiB. A run that is
  not given two arguments makes no library call. Every other run starts by creating a
  file access property list and selecting the core driver for it (\<open>H5Pset_fapl_core\<close>
  with increment 0 and no backing store); when that succeeds, the next step is
  \<open>set_rawdata_cache\<close> for that list with 521 slots, \<open>64 * 1024 * 1024\<close> bytes and weight
  1; \<open>H5Pset_all_coll_metadata_ops\<close>, the step of the branch that is not the POSIX one, is
  never called; and every file is opened with that property list, never with the default
  one of the direct branch. This holds of the calls made in every run of a list that the
  loop counter can count, up to the end of the run or to the point where its behaviour
  becomes undefined.
\<close>

theorem strategy_is_fixed:
  assumes "length (input_paths env) < 2 ^ 32"
  shows "\<exists>out. main lib env l0 = Some out \<and>
           ((length (argv env) \<noteq> 3 \<and> calls (final out) = []) \<or>
            (length (argv env) = 3 \<and>
             (\<exists>fapl e. take 2 (calls (final out)) =
                         [Ev_H5Pcreate fapl, Ev_H5Pset_fapl_core fapl 0 False e] \<and>
                (0 \<le> e \<longrightarrow>
                   calls (final out) ! 2 = Ev_set_rawdata_cache fapl 521 (64 * 1024 * 1024) 1) \<and>
                list_all (core_strategy_event fapl) (calls (final out)))))"
  using assms
proof (cases rule: main_cases [where lib = lib and ?l0.0 = l0])
  case usage
  then show ?thesis by simp
next
  case (config_failed code w)
  from configure_trace [OF config_failed(2)] obtain fapl e rest where
    c: "calls w = Ev_H5Pcreate fapl # Ev_H5Pset_fapl_core fapl 0 False e # rest"
      "0 \<le> e \<longrightarrow> rest \<noteq> [] \<and> hd rest = Ev_set_rawdata_cache fapl 521 67108864 1"
      "list_all (core_strategy_event fapl) rest"
    by (auto simp: world0_fields)
  have "take 2 (calls w) = [Ev_H5Pcreate fapl, Ev_H5Pset_fapl_core fapl 0 False e]"
    "0 \<le> e \<longrightarrow> calls w ! 2 = Ev_set_rawdata_cache fapl 521 (64 * 1024 * 1024) 1"
    "list_all (core_strategy_event fapl) (calls w)"
    using c by (auto simp: core_strategy_event_def hd_conv_nth)
  with config_failed(1) show ?thesis unfolding config_failed(3) by auto
next
  case (undefined fapl w1 a w2 st1 st w3)
  from configure_trace [OF undefined(2)] obtain e rest where
    c: "calls w1 = Ev_H5Pcreate fapl # Ev_H5Pset_fapl_core fapl 0 False e # rest"
      "0 \<le> e \<longrightarrow> rest \<noteq> [] \<and> hd rest = Ev_set_rawdata_cache fapl 521 67108864 1"
      "list_all (core_strategy_event fapl) rest"
    by (auto simp: world0_fields)
  from invoke_advance [OF undefined(3)] have c2: "calls w2 = calls w1 @ [Ev_H5get_alloc_stats a]"
    by (simp add: advance_def)
  from scan_files_undefined [OF undefined(5)] obtain evs where
    c3: "calls w3 = calls w2 @ evs" "list_all (scan_event fapl) evs"
    by (auto simp: advance_def report_def insert_text_def Let_def)
  let ?tail = "rest @ [Ev_H5get_alloc_stats a] @ evs"
  have all: "calls w3 = Ev_H5Pcreate fapl # Ev_H5Pset_fapl_core fapl 0 False e # ?tail"
    using c(1) c2 c3(1) by simp
  have t: "list_all (core_strategy_event fapl) ?tail"
    using c(3) scan_event_core [OF c3(2)] by (simp add: core_strategy_event_def)
  have "take 2 (calls w3) = [Ev_H5Pcreate fapl, Ev_H5Pset_fapl_core fapl 0 False e]"
    "0 \<le> e \<longrightarrow> calls w3 ! 2 = Ev_set_rawdata_cache fapl 521 (64 * 1024 * 1024) 1"
    "list_all (core_strategy_event fapl) (calls w3)"
    using c(2) t unfolding all by (auto simp: core_strategy_event_def hd_conv_nth nth_append)
  with undefined(1) show ?thesis unfolding undefined(6) by auto
next
  case (scanned fapl w1 a w2 st1 st w3 res w4)
  from configure_trace [OF scanned(2)] obtain e rest where
    c: "calls w1 = Ev_H5Pcreate fapl # Ev_H5Pset_fapl_core fapl 0 False e # rest"
      "0 \<le> e \<longrightarrow> rest \<noteq> [] \<and> hd rest = Ev_set_rawdata_cache fapl 521 67108864 1"
      "list_all (core_strategy_event fapl) rest"
    by (auto simp: world0_fields)
  from invoke_advance [OF scanned(3)] have c2: "calls w2 = calls w1 @ [Ev_H5get_alloc_stats a]"
    by (simp add: advance_def)
  from scan_files_summary [OF scanned(5)] obtain evs where
    c3: "calls w3 = calls w2 @ evs" "list_all (scan_event fapl) evs"
    by (auto simp: advance_def report_def insert_text_def Let_def)
  from close_all_trace [OF scanned(6)] obtain cl where
    c4: "calls w4 = calls w3 @ cl" "list_all is_close cl" by blast
  let ?tail = "rest @ [Ev_H5get_alloc_stats a] @ evs @ cl"
  have all: "calls w4 = Ev_H5Pcreate fapl # Ev_H5Pset_fapl_core fapl 0 False e # ?tail"
    using c(1) c2 c3(1) c4(1) by simp
  have t: "list_all (core_strategy_event fapl) ?tail"
    using c(3) scan_event_core [OF c3(2)] is_close_core [OF c4(2), of fapl]
    by (simp add: core_strategy_event_def)
  have "take 2 (calls w4) = [Ev_H5Pcreate fapl, Ev_H5Pset_fapl_core fapl 0 False e]"
    "0 \<le> e \<longrightarrow> calls w4 ! 2 = Ev_set_rawdata_cache fapl 521 (64 * 1024 * 1024) 1"
    "list_all (core_strategy_event fapl) (calls w4)"
    using c(2) t unfolding all by (auto simp: core_strategy_event_def hd_conv_nth nth_append)
  with scanned(1) show ?thesis unfolding scanned(7) by auto
qed

text \<open>The run on the files \<open>a.h5\<close> and \<open>b.h5\<close>, with the property list 1.\<close>

theorem strategy_is_fixed_witness:
  "length (input_paths (sim_env ''a.h5\<newline>b.h5\<newline>'')) < 2 ^ 32 \<and>
   length (argv (sim_env ''a.h5\<newline>b.h5\<newline>'')) = 3 \<and>
   take 2 (calls (final (sim_outcome two_files ''a.h5\<newline>b.h5\<newline>''))) =
     [Ev_H5Pcreate 1, Ev_H5Pset_fapl_core 1 0 False 0] \<and>
   calls (final (sim_outcome two_files ''a.h5\<newline>b.h5\<newline>'')) ! 2 =
     Ev_set_rawdata_cache 1 521 (64 * 1024 * 1024) 1 \<and>
   list_all (core_strategy_event 1) (calls (final (sim_outcome two_files ''a.h5\<newline>b.h5\<newline>'')))"
proof -
  let ?env = "sim_env ''a.h5\<newline>b.h5\<newline>''"
  let ?out = "sim_outcome two_files ''a.h5\<newline>b.h5\<newline>''"
  have h: "length (input_paths ?env) < 2 ^ 32"
    by (simp add: sim_env_fields)
  have a: "length (argv ?env) = 3" by (rule sim_env_fields)
  from strategy_is_fixed [OF h, where lib = "sim_lib two_files" and ?l0.0 = "[]"] a
  obtain out fapl e where o: "main (sim_lib two_files) ?env [] = Some out"
    "take 2 (calls (final out)) = [Ev_H5Pcreate fapl, Ev_H5Pset_fapl_core fapl 0 False e]"
    "0 \<le> e \<longrightarrow> calls (final out) ! 2 = Ev_set_rawdata_cache fapl 521 (64 * 1024 * 1024) 1"
    "list_all (core_strategy_event fapl) (calls (final out))"
    by auto
  from o(1) have eq: "out = ?out"
    by (simp add: sim_outcome_def sim_run_def)
  have t: "take 2 (calls (final ?out)) = [Ev_H5Pcreate 1, Ev_H5Pset_fapl_core 1 0 False 0]"
    unfolding sim_outcome_eq [OF run_a_b] by simp
  from o(2) have fe: "fapl = 1" "e = 0" unfolding eq t by simp_all
  from o(3,4) h a t show ?thesis unfolding eq fe by simp
qed

section \<open>Failures that end the run\<close>

lemma advance_quiet:
  "advance w evs rows w' \<Longrightarrow> list_all (\<lambda>e. checked_failure e = None) evs \<Longrightarrow> quiet w \<Longrightarrow> quiet w'"
  by (simp add: advance_def quiet_def)

lemma fatal_quiet:
  assumes "fatal w (pre @ [e]) name w'" and "quiet w"
    and "list_all (\<lambda>e. checked_failure e = None) pre" and "checked_failure e = Some name"
  shows "cerr w' = [] \<and>
         (\<forall>x \<in> set (calls w'). \<forall>n. checked_failure x = Some n \<longrightarrow>
            cout w' = ''Error: '' @ n @ endl \<and> last (calls w') = x)"
  using assms by (auto simp: fatal_def quiet_def list_all_iff)

lemma quiet_final:
  assumes "quiet w"
  shows "cerr w = [] \<and>
         (\<forall>x \<in> set (calls w). \<forall>n. checked_failure x = Some n \<longrightarrow>
            P \<and> cout w = ''Error: '' @ n @ endl \<and> last (calls w) = x)"
  using assms by (auto simp: quiet_def list_all_iff)

lemma world0_quiet: "quiet (world0 env l0)"
  by (simp add: quiet_def world0_fields)

lemma configure_checked:
  assumes "configure lib w = (res, w')"
  shows "(\<exists>fapl evs. res = Inr fapl \<and> advance w evs [] w' \<and>
            list_all (\<lambda>e. checked_failure e = None) evs)
       \<or> (\<exists>pre e name. res = Inl 1 \<and> fatal w (pre @ [e]) name w' \<and>
            list_all (\<lambda>e. checked_failure e = None) pre \<and> checked_failure e = Some name)"
  using assms
proof (cases rule: configure_cases)
  case (ok fapl e e1 m s b x e2)
  then show ?thesis
    by (intro disjI1 exI [of _ fapl]
          exI [of _ "[Ev_H5Pcreate fapl, Ev_H5Pset_fapl_core fapl 0 False e,
                  Ev_set_rawdata_cache fapl 521 67108864 1,
                  Ev_H5Pget_cache fapl e1 m s b x, Ev_H5Pset_cache fapl m s b x e2]"])
       (simp add: checked_failure_def)
next
  case (core fapl e)
  then show ?thesis
    by (intro disjI2 exI [of _ "[Ev_H5Pcreate fapl]"]
          exI [of _ "Ev_H5Pset_fapl_core fapl 0 False e"] exI [of _ "''H5Pset_fapl_core''"])
       (simp add: checked_failure_def)
next
  case (get fapl e e1 m s b x)
  then show ?thesis
    by (intro disjI2
          exI [of _ "[Ev_H5Pcreate fapl, Ev_H5Pset_fapl_core fapl 0 False e,
                      Ev_set_rawdata_cache fapl 521 67108864 1]"]
          exI [of _ "Ev_H5Pget_cache fapl e1 m s b x"] exI [of _ "''H5Pget_cache''"])
       (simp add: checked_failure_def)
next
  case (set fapl e e1 m s b x e2)
  then show ?thesis
    by (intro disjI2
          exI [of _ "[Ev_H5Pcreate fapl, Ev_H5Pset_fapl_core fapl 0 False e,
                      Ev_set_rawdata_cache fapl 521 67108864 1, Ev_H5Pget_cache fapl e1 m s b x]"]
          exI [of _ "Ev_H5Pset_cache fapl m s b x e2"] exI [of _ "''H5Pset_cache''"])
       (simp add: checked_failure_def)
qed

lemma scan_event_unchecked:
  "list_all (scan_event fapl) evs \<Longrightarrow> list_all (\<lambda>e. checked_failure e = None) evs"
  by (induction evs)
     (auto simp: scan_event_def checked_failure_def visit_event_def split: event.splits)

text \<open>
  C6 as it is stated does not hold. When the library rejects \<open>H5Pset_fapl_core\<close> the
  diagnostic is written to the standard output and nothing is written to the standard
  error. When neither the list file nor the output file can be opened, nothing is
  written to either stream and the exit status is 0.
\<close>

theorem diagnostics_not_on_standard_error:
  "ending no_core_outcome = Exit 1 \<and>
   cout (final no_core_outcome) = ''Error: H5Pset_fapl_core'' @ endl \<and>
   cerr (final no_core_outcome) = [] \<and>
   fs_read sim_env_no_files (argv sim_env_no_files ! 1) = None \<and>
   fs_write sim_env_no_files (argv sim_env_no_files ! 2) = False \<and>
   ending no_files_outcome = Exit 0 \<and>
   cout (final no_files_outcome) = [] \<and>
   cerr (final no_files_outcome) = [] \<and>
   outfile (final no_files_outcome) = []"
proof -
  have a: "ending no_core_outcome = Exit 1 \<and>
           cout (final no_core_outcome) = ''Error: H5Pset_fapl_core'' @ endl \<and>
           cerr (final no_core_outcome) = []"
    by (simp add: no_core_outcome_def run_no_core endl_def)
  have b: "fs_read sim_env_no_files (argv sim_env_no_files ! 1) = None \<and>
           fs_write sim_env_no_files (argv sim_env_no_files ! 2) = False"
    by (simp add: sim_env_no_files_def sim_env_def)
  have c: "ending no_files_outcome = Exit 0 \<and>
           cout (final no_files_outcome) = [] \<and>
           cerr (final no_files_outcome) = [] \<and>
           outfile (final no_files_outcome) = []"
    by (simp add: no_files_outcome_def run_no_files)
  from a b c show ?thesis by simp
qed

text \<open>
  C6, amended. The program checks the status of four library calls: \<open>H5Pset_fapl_core\<close>,
  \<open>H5Pget_cache\<close>, \<open>H5Pset_cache\<close> and \<open>H5Fclose\<close>. Nothing is ever written to the standard
  error. Whenever one of the four reports a failure, the run ends with exit status 1, the
  standard output holds \<open>Error: \<close> followed by the name of that operation and a line
  feed, and the failing call is the last call of the run. This holds of every run of a
  list that the loop counter can count.
\<close>

theorem checked_failures_are_fatal:
  assumes "length (input_paths env) < 2 ^ 32"
  shows "\<exists>out. main lib env l0 = Some out \<and> cerr (final out) = [] \<and>
           (\<forall>e \<in> set (calls (final out)). \<forall>name. checked_failure e = Some name \<longrightarrow>
              ending out = Exit 1 \<and> cout (final out) = ''Error: '' @ name @ endl \<and>
              last (calls (final out)) = e)"
  using assms
proof (cases rule: main_cases [where lib = lib and ?l0.0 = l0])
  case usage
  then show ?thesis by simp
next
  case (config_failed code w)
  from configure_checked [OF config_failed(2)] obtain pre e name where
    f: "code = 1" "fatal (world0 env l0) (pre @ [e]) name w"
      "list_all (\<lambda>e. checked_failure e = None) pre" "checked_failure e = Some name"
    by auto
  from fatal_quiet [OF f(2) world0_quiet f(3,4)] f(1)
  show ?thesis unfolding config_failed(3) by simp
next
  case (undefined fapl w1 a w2 st1 st w3)
  from configure_checked [OF undefined(2)] obtain evs where
    "advance (world0 env l0) evs [] w1" "list_all (\<lambda>e. checked_failure e = None) evs"
    by auto
  then have q1: "quiet w1" by (rule advance_quiet [OF _ _ world0_quiet])
  have q2: "quiet w2"
    by (rule advance_quiet [OF invoke_advance [OF undefined(3)] _ q1])
       (simp add: checked_failure_def)
  have q2': "quiet (report (curr_alloc st1) 0 w2)"
    by (rule advance_quiet [OF report_advance _ q2]) simp
  from scan_files_undefined [OF undefined(5)] obtain sevs rows where
    s: "advance (report (curr_alloc st1) 0 w2) sevs rows w3" "list_all (scan_event fapl) sevs"
    by blast
  have q3: "quiet w3"
    by (rule advance_quiet [OF s(1) scan_event_unchecked [OF s(2)] q2'])
  from quiet_final [OF q3, where P = False] show ?thesis unfolding undefined(6) by simp
next
  case (scanned fapl w1 a w2 st1 st w3 res w4)
  from configure_checked [OF scanned(2)] obtain evs where
    "advance (world0 env l0) evs [] w1" "list_all (\<lambda>e. checked_failure e = None) evs"
    by auto
  then have q1: "quiet w1" by (rule advance_quiet [OF _ _ world0_quiet])
  have q2: "quiet w2"
    by (rule advance_quiet [OF invoke_advance [OF scanned(3)] _ q1])
       (simp add: checked_failure_def)
  have q2': "quiet (report (curr_alloc st1) 0 w2)"
    by (rule advance_quiet [OF report_advance _ q2]) simp
  from scan_files_summary [OF scanned(5)] obtain sevs rows where
    s: "advance (report (curr_alloc st1) 0 w2) sevs rows w3" "list_all (scan_event fapl) sevs"
    by blast
  have q3: "quiet w3"
    by (rule advance_quiet [OF s(1) scan_event_unchecked [OF s(2)] q2'])
  from close_all_cases [OF scanned(6)] show ?thesis
  proof (elim disjE exE conjE)
    fix cl
    assume c: "res = Inr ()" "advance w3 cl [] w4" "list_all (\<lambda>e. checked_failure e = None) cl"
    have "quiet w4" by (rule advance_quiet [OF c(2,3) q3])
    from quiet_final [OF this, where P = False] show ?thesis unfolding scanned(7) by simp
  next
    fix pre e
    assume c: "res = Inl 1" "fatal w3 (pre @ [e]) ''H5Fclose'' w4"
      "list_all (\<lambda>e. checked_failure e = None) pre" "checked_failure e = Some ''H5Fclose''"
    from fatal_quiet [OF c(2) q3 c(3,4)] c(1) show ?thesis unfolding scanned(7) by simp
  qed
qed

text \<open>The run against the library that rejects \<open>H5Pset_fapl_core\<close>.\<close>

theorem checked_failures_are_fatal_witness:
  "length (input_paths (sim_env [])) < 2 ^ 32 \<and>
   Ev_H5Pset_fapl_core 1 0 False (- 1) \<in> set (calls (final no_core_outcome)) \<and>
   checked_failure (Ev_H5Pset_fapl_core 1 0 False (- 1)) = Some ''H5Pset_fapl_core'' \<and>
   ending no_core_outcome = Exit 1 \<and>
   cout (final no_core_outcome) = ''Error: '' @ ''H5Pset_fapl_core'' @ endl \<and>
   last (calls (final no_core_outcome)) = Ev_H5Pset_fapl_core 1 0 False (- 1) \<and>
   cerr (final no_core_outcome) = []"
proof -
  let ?e = "Ev_H5Pset_fapl_core 1 0 False (- 1)"
  have h: "length (input_paths (sim_env [])) < 2 ^ 32"
    by (simp add: sim_env_fields)
  from checked_failures_are_fatal [OF h, where lib = sim_lib_no_core and ?l0.0 = "[]"]
  obtain out where o: "main sim_lib_no_core (sim_env []) [] = Some out" "cerr (final out) = []"
    "\<forall>e \<in> set (calls (final out)). \<forall>name. checked_failure e = Some name \<longrightarrow>
       ending out = Exit 1 \<and> cout (final out) = ''Error: '' @ name @ endl \<and>
       last (calls (final out)) = e"
    by blast
  from o(1) have eq: "out = no_core_outcome"
    by (simp add: no_core_outcome_def)
  have m: "?e \<in> set (calls (final no_core_outcome))"
    by (simp add: no_core_outcome_def run_no_core)
  have c: "checked_failure ?e = Some ''H5Pset_fapl_core''"
    by (simp add: checked_failure_def)
  from o(3) [unfolded eq, rule_format, OF m c] o(2) [unfolded eq] h m c
  show ?thesis by blast
qed

section \<open>The file handles\<close>












section \<open>The accumulated file size\<close>









section \<open>Where the program does not do what is claimed\<close>

text \<open>
  C1. The cache size that \<open>main\<close> asks for does not reach the library. In the run on an
  empty list, \<open>set_rawdata_cache\<close> is entered with 521 slots, \<open>64 * 1024 * 1024\<close> bytes and
  weight 1; \<open>H5Pget_cache\<close> then stores the library's values (521 slots, 1 MiB, weight
  0.75) into those same parameters, and \<open>H5Pset_cache\<close> submits what \<open>H5Pget_cache\<close> has
  stored: the byte capacity that is submitted is the library's 1048576, not the
  67108864 that was asked for.
\<close>

theorem requested_cache_size_is_overwritten:
  "take 3 (drop 2 (calls (final (sim_outcome two_files [])))) =
     [Ev_set_rawdata_cache 1 521 (64 * 1024 * 1024) 1,
      Ev_H5Pget_cache 1 0 0 521 1048576 (3 / 4),
      Ev_H5Pset_cache 1 0 521 1048576 (3 / 4) 0] \<and>
   ending (sim_outcome two_files []) = Exit 0"
  unfolding sim_outcome_eq [OF run_empty] by simp

text \<open>
  C2. A path that cannot be opened does not stop the program where it is opened. In the
  run on a list that holds the one path \<open>missing.h5\<close>, which does not exist, \<open>H5Fopen\<close>
  returns \<open>-1\<close>; the loop body goes on with that value, a row is emitted for the path
  (there are two rows, the baseline and this one), and \<open>-1\<close> is stored in the map. The
  run ends with status 1 only later, when \<open>H5Fclose\<close> rejects \<open>-1\<close>, and the diagnostic
  names \<open>H5Fclose\<close>.
\<close>

theorem failed_open_is_not_detected:
  "input_paths (sim_env ''missing.h5'') = [''missing.h5''] \<and>
   opened (calls (final (sim_outcome two_files ''missing.h5''))) = [(''missing.h5'', - 1)] \<and>
   length (emitted (final (sim_outcome two_files ''missing.h5''))) = 2 \<and>
   file_ids (locals (sim_outcome two_files ''missing.h5'')) = [(''missing.h5'', - 1)] \<and>
   last (calls (final (sim_outcome two_files ''missing.h5''))) = Ev_H5Fclose (- 1) (- 1) \<and>
   cout (final (sim_outcome two_files ''missing.h5'')) = ''Error: H5Fclose'' @ endl \<and>
   ending (sim_outcome two_files ''missing.h5'') = Exit 1"
proof -
  have a: "input_paths (sim_env ''missing.h5'') = [''missing.h5'']"
    by (simp add: sim_env_fields)
  show ?thesis
    unfolding sim_outcome_eq [OF run_missing] a
    by (simp add: opened_def endl_def)
qed

text \<open>
  C4. A row is emitted for every path, also for one that could not be opened. In the run
  on the list of \<open>aa.h5\<close>, which does not exist, and \<open>b.h5\<close>, one file is opened
  successfully and three rows are emitted: the baseline, one for \<open>aa.h5\<close> and one for
  \<open>b.h5\<close>.
\<close>

theorem rows_count_paths_not_opened_files:
  "input_paths (sim_env ''aa.h5\<newline>b.h5\<newline>'') = [''aa.h5'', ''b.h5''] \<and>
   opened (calls (final (sim_outcome two_files ''aa.h5\<newline>b.h5\<newline>''))) =
     [(''aa.h5'', - 1), (''b.h5'', 2)] \<and>
   filesize_replies (calls (final (sim_outcome two_files ''aa.h5\<newline>b.h5\<newline>''))) =
     [None, Some 2500] \<and>
   length (emitted (final (sim_outcome two_files ''aa.h5\<newline>b.h5\<newline>''))) = 3"
proof -
  have a: "input_paths (sim_env ''aa.h5\<newline>b.h5\<newline>'') = [''aa.h5'', ''b.h5'']"
    by (simp add: sim_env_fields)
  show ?thesis
    unfolding sim_outcome_eq [OF run_missing_b] a
    by (simp add: opened_def filesize_replies_def)
qed

text \<open>
  What \<open>op_func\<close> does on a dataset for which the library stores at most two sizes, the
  first of them 0: the dataset is opened, its dataspace is obtained, queried and closed,
  the dataset is closed, and the callback returns 0 with the bookkeeping record as it was.
\<close>

lemma op_func_releases_empty_dataset:
  assumes "H5Dopen lib obj name (h5 w) = (d, l1)"
    and "H5Dget_space lib d l1 = (s, l2)"
    and "H5Sget_simple_extent_dims lib s l2 = ((n, 0 # ds), l3)"
    and "length ds \<le> 1"
    and "H5Sclose lib s l3 = (e1, l4)"
    and "H5Dclose lib d l4 = (e2, l5)"
  shows "op_func lib stack obj name H5O_TYPE_DATASET od w =
           (Some (0, od),
            w\<lparr>h5 := l5,
              calls := calls w @ [Ev_H5Dopen obj name d, Ev_H5Dget_space d s,
                                  Ev_H5Sget_simple_extent_dims s n (0 # ds),
                                  Ev_H5Sclose s e1, Ev_H5Dclose d e2]\<rparr>)"
proof -
  from assms(4) have "store_dims (stack (calls w @ [Ev_H5Dopen obj name d, Ev_H5Dget_space d s]))
                        (0 # ds) =
                      Some (0, case ds of [] \<Rightarrow> snd (stack (calls w @ [Ev_H5Dopen obj name d,
                                                                     Ev_H5Dget_space d s]))
                               | d1 # r \<Rightarrow> d1)"
    by (cases ds) (auto simp: store_dims_def split: list.splits)
  with assms show ?thesis
    by (simp add: op_func_def invoke_def Let_def)
qed

text \<open>
  C5. A dataset whose first dimension is 0 is not released when it has more than two
  dimensions. In the run on the file \<open>t.h5\<close>, whose dataset \<open>tensor\<close> has eight
  dimensions, the first of size 0, the dataset is opened as handle 3 and its dataspace as
  handle 4, and \<open>H5Sget_simple_extent_dims\<close> stores eight sizes into the array \<open>dset_dims\<close>
  of two elements. The behaviour of the program is undefined from that call on: it is the
  last call of the run as far as the program defines it, there is no \<open>H5Dclose\<close>, and
  the dataset and the dataspace are still open.
\<close>

theorem empty_tensor_is_not_released:
  "drop 9 (calls (final (sim_outcome tensor_files ''t.h5\<newline>t.h5''))) =
     [Ev_H5Dopen 2 ''tensor'' 3, Ev_H5Dget_space 3 4,
      Ev_H5Sget_simple_extent_dims 4 8 [0, 4, 5, 6, 7, 8, 9, 10]] \<and>
   h5 (final (sim_outcome tensor_files ''t.h5\<newline>t.h5'')) =
     [Sim_plist, Sim_file ''t.h5'', Sim_dset [0, 4, 5, 6, 7, 8, 9, 10],
      Sim_space [0, 4, 5, 6, 7, 8, 9, 10]] \<and>
   store_dims (7, 7) [0, 4, 5, 6, 7, 8, 9, 10] = None \<and>
   ending (sim_outcome tensor_files ''t.h5\<newline>t.h5'') = Undefined"
  unfolding sim_outcome_eq [OF run_tensor] by (simp add: store_dims_def)

text \<open>
  C9. The callback does not return 0 for every object. Called on the dataset \<open>tensor\<close>
  of eight dimensions in the open file \<open>t.h5\<close>, \<open>op_func\<close> overruns its array \<open>dset_dims\<close>
  and has no defined result. In the run on the list that names \<open>t.h5\<close> twice, nothing is
  defined after that call: of the two paths only the first has been opened, and the only
  row is the baseline.
\<close>

theorem callback_is_undefined_on_a_tensor:
  "fst (op_func (sim_lib tensor_files) (\<lambda>trace. (7, 7)) 2 ''tensor'' H5O_TYPE_DATASET
          \<lparr>dset_ids = []\<rparr>
          \<lparr>h5 = [Sim_plist, Sim_file ''t.h5''], calls = [], cout = [], cerr = [],
             out_good = True, outfile = [], emitted = []\<rparr>) = None \<and>
   input_paths (sim_env ''t.h5\<newline>t.h5'') = [''t.h5'', ''t.h5''] \<and>
   opened (calls (final (sim_outcome tensor_files ''t.h5\<newline>t.h5''))) = [(''t.h5'', 2)] \<and>
   length (emitted (final (sim_outcome tensor_files ''t.h5\<newline>t.h5''))) = 1 \<and>
   ending (sim_outcome tensor_files ''t.h5\<newline>t.h5'') = Undefined"
proof -
  have a: "fst (op_func (sim_lib tensor_files) (\<lambda>trace. (7, 7)) 2 ''tensor'' H5O_TYPE_DATASET
                  \<lparr>dset_ids = []\<rparr>
                  \<lparr>h5 = [Sim_plist, Sim_file ''t.h5''], calls = [], cout = [], cerr = [],
                     out_good = True, outfile = [], emitted = []\<rparr>) = None"
    by (simp add: run_simps tensor_files_def)
  have b: "input_paths (sim_env ''t.h5\<newline>t.h5'') = [''t.h5'', ''t.h5'']"
    by (simp add: sim_env_fields)
  show ?thesis
    unfolding sim_outcome_eq [OF run_tensor] a b
    by (simp add: opened_def)
qed

end
